theory Spec2Isabelle
  imports Main
begin

section \<open>The AWS provider of ops (lepton/aws.go): data\<close>

text \<open>
  The structures below carry the fields of the SDK types that aws.go reads. A Go
  \<^verbatim>\<open>*string\<close> or \<^verbatim>\<open>*bool\<close> is an option (\<open>None\<close> is the nil pointer); slices hold
  non-nil elements. A nil slice is the empty list, except for the tags of an image, where
  the source tests the slice against nil before it reads element 0.
\<close>

text \<open>\<^verbatim>\<open>aws.StringValue\<close>: the string behind the pointer, the empty string for nil.\<close>

definition StringValue :: "string option \<Rightarrow> string" where
  "StringValue p = (case p of None \<Rightarrow> [] | Some s \<Rightarrow> s)"

text \<open>The tag of the configuration (\<^verbatim>\<open>Tag\<close>) and the tag of the SDK (\<^verbatim>\<open>ec2.Tag\<close>).\<close>

record Tag =
  Key :: string
  Value :: string

record ec2_Tag =
  TagKey :: "string option"
  TagValue :: "string option"

record InstanceNetworkInterfaceAssociation =
  PublicIp :: "string option"

record InstanceNetworkInterface =
  PrivateIpAddress :: "string option"
  Association :: "InstanceNetworkInterfaceAssociation option"

record InstanceState =
  StateName :: "string option"

text \<open>
  \<open>LaunchTime\<close> stands for the text \<^verbatim>\<open>aws.TimeValue(instance.LaunchTime).String()\<close>
  renders; no operation below looks inside it.
\<close>

record ec2_Instance =
  InstanceId :: "string option"
  InstanceTags :: "ec2_Tag list"
  NetworkInterfaces :: "InstanceNetworkInterface list"
  State :: "InstanceState option"
  LaunchTime :: string

record CloudInstance =
  ID :: string
  Name :: string
  Status :: string
  Created :: string
  PrivateIps :: "string list"
  PublicIps :: "string list"

record ec2_Reservation =
  Instances :: "ec2_Instance list"

record ec2_Image =
  ImageId :: "string option"
  ImageTags :: "ec2_Tag list option"
  CreationDate :: "string option"

record ec2_Vpc =
  VpcId :: "string option"
  IsDefault :: "bool option"

record ec2_Subnet =
  SubnetId :: "string option"
  SubnetVpcId :: "string option"
  DefaultForAz :: "bool option"

record ec2_SecurityGroup =
  GroupId :: "string option"
  GroupVpcId :: "string option"

record SnapshotTaskDetail =
  TaskStatus :: "string option"
  SnapshotId :: "string option"

record ImportSnapshotTask =
  ImportTaskId :: "string option"
  Detail :: "SnapshotTaskDetail option"

record ec2_Filter =
  FilterName :: string
  FilterValues :: "string list"

record ec2_IpPermission =
  IpProtocol :: string
  FromPort :: int
  ToPort :: int
  IpRanges :: "string list"

section \<open>Errors\<close>

text \<open>
  An error of the SDK: an \<^verbatim>\<open>awserr.Error\<close> with its code and message, or any other
  error with its text.
\<close>

datatype sdk_error = AwsErr string string | OtherErr string

text \<open>
  One constructor for each place where aws.go makes an error, with the values it formats
  into the message; \<open>Sdk\<close> is an error of the SDK or of a collaborator handed on
  unchanged. The last three are not returned errors: \<open>Exited\<close> is the process ended by
  \<^verbatim>\<open>exitWithError\<close> (defined outside this file; it prints its message and exits), the
  panics are Go's run-time panics on a nil pointer and on an index out of range.
\<close>

datatype error =
    Sdk sdk_error
  | TimeParse string
  | CantFindAmi
  | GetSecurityGroup string sdk_error
  | VpcMismatch string string string
  | SecurityGroupNotFound string
  | NoSubnetsNamed string
  | NoSubnets
  | UnableToDescribeVpcs sdk_error
  | NoVpcsNamed string
  | NoVpcs
  | UnableToFindVpc string
  | SecurityGroupExists string
  | UnableToCreateSecurityGroup string sdk_error
  | UnableToSetIngress string sdk_error
  | OperationTimedOut nat
  | InstanceNotFound string
  | Exited string
  | PanicNilDereference
  | PanicIndexOutOfRange

text \<open>Whether the value is a returned error (which a caller can test) or the end of the run.\<close>

fun returned :: "error \<Rightarrow> bool" where
  "returned (Exited m) = False"
| "returned PanicNilDereference = False"
| "returned PanicIndexOutOfRange = False"
| "returned e = True"

section \<open>Instance descriptions\<close>

text \<open>
  The first loop of \<^verbatim>\<open>formalizeAWSInstance\<close>: the name starts as "unknown" and every
  tag with key "Name" overwrites it.
\<close>

fun instanceNameLoop :: "string \<Rightarrow> ec2_Tag list \<Rightarrow> string" where
  "instanceNameLoop instanceName [] = instanceName"
| "instanceNameLoop instanceName (t # ts) =
     (if StringValue (TagKey t) = ''Name''
      then instanceNameLoop (StringValue (TagValue t)) ts
      else instanceNameLoop instanceName ts)"

text \<open>The second loop: the pair of the private and the public addresses collected so far.\<close>

fun ipsLoop :: "string list \<times> string list \<Rightarrow> InstanceNetworkInterface list
    \<Rightarrow> string list \<times> string list" where
  "ipsLoop (privateIps, publicIps) [] = (privateIps, publicIps)"
| "ipsLoop (privateIps, publicIps) (ninterface # rest) =
     (let privateIps' = privateIps @ [StringValue (PrivateIpAddress ninterface)]
      in case Association ninterface of
           None \<Rightarrow> ipsLoop (privateIps', publicIps) rest
         | Some a \<Rightarrow>
             (case PublicIp a of
                None \<Rightarrow> ipsLoop (privateIps', publicIps) rest
              | Some ip \<Rightarrow> ipsLoop (privateIps', publicIps @ [StringValue (Some ip)]) rest))"

definition formalizeAWSInstance :: "ec2_Instance \<Rightarrow> error + CloudInstance" where
  "formalizeAWSInstance instance =
     (let instanceName = instanceNameLoop ''unknown'' (InstanceTags instance);
          (privateIps, publicIps) = ipsLoop ([], []) (NetworkInterfaces instance)
      in case State instance of
           None \<Rightarrow> Inl PanicNilDereference
         | Some st \<Rightarrow>
             Inr \<lparr> ID = StringValue (InstanceId instance),
                   Name = instanceName,
                   Status = StringValue (StateName st),
                   Created = LaunchTime instance,
                   PrivateIps = privateIps,
                   PublicIps = publicIps \<rparr>)"

section \<open>Tags of a new instance\<close>

text \<open>
  The loop of \<^verbatim>\<open>parseToAWSTags\<close> over the configured tags, with its three variables:
  the SDK tags built so far, whether a "Name" tag was seen, and the name.
\<close>

fun parseLoop :: "ec2_Tag list \<times> bool \<times> string \<Rightarrow> Tag list \<Rightarrow> ec2_Tag list \<times> bool \<times> string" where
  "parseLoop (tags, nameSpecified, name) [] = (tags, nameSpecified, name)"
| "parseLoop (tags, nameSpecified, name) (tag # rest) =
     (let tags' = tags @ [\<lparr> TagKey = Some (Key tag), TagValue = Some (Value tag) \<rparr>]
      in if Key tag = ''Name''
         then parseLoop (tags', True, Value tag) rest
         else parseLoop (tags', nameSpecified, name) rest)"

definition parseToAWSTags :: "Tag list \<Rightarrow> string \<Rightarrow> ec2_Tag list \<times> string" where
  "parseToAWSTags configTags defaultName =
     (case parseLoop ([], False, defaultName) configTags of
        (tags, nameSpecified, name) \<Rightarrow>
          if \<not> nameSpecified
          then (tags @ [\<lparr> TagKey = Some ''Name'', TagValue = Some name \<rparr>], name)
          else (tags, name))"

section \<open>Configuration\<close>

record CloudConfig =
  BucketName :: string
  ImageName :: string
  Zone :: string
  Flavor :: string

record RunConfig =
  SecurityGroup :: string
  VPC :: string
  Subnet :: string
  Ports :: "int list"
  UDPPorts :: "int list"
  Tags :: "Tag list"
  DomainName :: string

record Config =
  CloudCfg :: CloudConfig
  RunCfg :: RunConfig

section \<open>The remote services\<close>

record RegisterImageInput =
  RegName :: string
  RegDescription :: string
  RegSnapshotId :: "string option"

record RunInstancesInput =
  RunImageId :: string
  InstanceType :: string
  MinCount :: int
  MaxCount :: int
  RunSubnetId :: string
  SecurityGroupIds :: "string list"
  TagSpecifications :: "(string \<times> ec2_Tag list) list"

text \<open>
  The requests aws.go sends, with the arguments that matter: the calls of the compute
  API, \<^verbatim>\<open>DeleteFromBucket\<close> of the object storage and \<^verbatim>\<open>CreateDNSRecord\<close> of
  the DNS collaborator. Every operation takes the list of the requests sent so far and
  returns it extended, in the order of sending.
\<close>

datatype call =
    ImportSnapshot string string
  | DescribeImportSnapshotTasks "string option"
  | DeleteFromBucket string
  | CreateTags "string option" "ec2_Tag list"
  | RegisterImage RegisterImageInput
  | DescribeImages
  | DescribeVpcs "ec2_Filter list option"
  | DescribeSecurityGroups string
  | DescribeSubnets "ec2_Filter list"
  | CreateSecurityGroup string string string
  | AuthorizeSecurityGroupIngress "string option" "ec2_IpPermission list"
  | RunInstances RunInstancesInput
  | DescribeInstances "ec2_Filter list"
  | CreateDNSRecord string string
  | TerminateInstances string

text \<open>
  What the world outside answers: one field for each request, a function of the
  request's arguments. The two requests that are polled also take the number of earlier
  requests of the same kind, so that their answer can change from poll to poll. The clock
  is read as \<open>clockUnixNano\<close> and \<open>clockUnix\<close>; \<open>timeParse\<close> is Go's
  \<^verbatim>\<open>time.Parse\<close> with the layout of \<^verbatim>\<open>CreateInstance\<close>, giving the text of the
  error or the instant as a number, the zero \<^verbatim>\<open>time.Time\<close> being 0.
\<close>

record environment =
  onNewSession :: "sdk_error option"
  onImportSnapshot :: "string \<Rightarrow> string \<Rightarrow> sdk_error + string option"
  onDescribeImportSnapshotTasks :: "nat \<Rightarrow> string option \<Rightarrow> sdk_error + ImportSnapshotTask list"
  onDeleteFromBucket :: "string \<Rightarrow> sdk_error option"
  onCreateTags :: "string option \<Rightarrow> ec2_Tag list \<Rightarrow> sdk_error option"
  onRegisterImage :: "RegisterImageInput \<Rightarrow> sdk_error + string option"
  onDescribeImages :: "sdk_error + ec2_Image list"
  onDescribeVpcs :: "ec2_Filter list option \<Rightarrow> sdk_error + ec2_Vpc list"
  onDescribeSecurityGroups :: "string \<Rightarrow> sdk_error + ec2_SecurityGroup list"
  onDescribeSubnets :: "ec2_Filter list \<Rightarrow> sdk_error + ec2_Subnet list"
  onCreateSecurityGroup :: "string \<Rightarrow> string \<Rightarrow> string \<Rightarrow> sdk_error + string option"
  onAuthorizeSecurityGroupIngress :: "string option \<Rightarrow> ec2_IpPermission list \<Rightarrow> sdk_error option"
  onRunInstances :: "RunInstancesInput \<Rightarrow> sdk_error + ec2_Instance list"
  onDescribeInstances :: "nat \<Rightarrow> ec2_Filter list \<Rightarrow> sdk_error + ec2_Reservation list"
  onCreateDNSRecord :: "string \<Rightarrow> string \<Rightarrow> sdk_error option"
  onTerminateInstances :: "string \<Rightarrow> sdk_error option"
  clockUnixNano :: int
  clockUnix :: int
  timeParse :: "string \<Rightarrow> string + int"

text \<open>\<^verbatim>\<open>strconv.FormatInt(t, 10)\<close> and \<^verbatim>\<open>strconv.Itoa\<close>: the decimal digits.\<close>

fun digitsOf :: "nat \<Rightarrow> string" where
  "digitsOf n =
     (if n < 10 then [char_of (48 + n)]
      else digitsOf (n div 10) @ [char_of (48 + n mod 10)])"

declare digitsOf.simps [simp del]

definition FormatInt :: "int \<Rightarrow> string" where
  "FormatInt i = (if i < 0 then ''-'' @ digitsOf (nat (- i)) else digitsOf (nat i))"

section \<open>Network and subnet\<close>

text \<open>
  The loop of \<^verbatim>\<open>GetVPC\<close> that selects the default network: it runs over the whole
  list and every network flagged default overwrites the choice.
\<close>

fun defaultVpcLoop :: "ec2_Vpc option \<Rightarrow> ec2_Vpc list \<Rightarrow> error + ec2_Vpc option" where
  "defaultVpcLoop vpc [] = Inr vpc"
| "defaultVpcLoop vpc (s # rest) =
     (case IsDefault s of
        None \<Rightarrow> Inl PanicNilDereference
      | Some isDefault \<Rightarrow>
          if isDefault then defaultVpcLoop (Some s) rest else defaultVpcLoop vpc rest)"

definition GetVPC :: "environment \<Rightarrow> Config \<Rightarrow> call list \<Rightarrow> (error + ec2_Vpc) \<times> call list" where
  "GetVPC env cfg tr =
     (let vpcName = VPC (RunCfg cfg);
          input = (if vpcName \<noteq> []
                   then Some [\<lparr> FilterName = ''vpc-id'', FilterValues = [VPC (RunCfg cfg)] \<rparr>]
                   else None);
          tr' = tr @ [DescribeVpcs input]
      in case onDescribeVpcs env input of
           Inl err \<Rightarrow> (Inl (UnableToDescribeVpcs err), tr')
         | Inr Vpcs \<Rightarrow>
             if length Vpcs = 0 \<and> vpcName \<noteq> [] then (Inl (NoVpcsNamed vpcName), tr')
             else if length Vpcs = 0 then (Inl NoVpcs, tr')
             else if vpcName \<noteq> [] then (Inr (Vpcs ! 0), tr')
             else (case defaultVpcLoop None Vpcs of
                     Inl e \<Rightarrow> (Inl e, tr')
                   | Inr None \<Rightarrow> (Inr (Vpcs ! 0), tr')
                   | Inr (Some vpc) \<Rightarrow> (Inr vpc, tr')))"

text \<open>
  The loop of \<^verbatim>\<open>GetSubnet\<close>: the first subnet flagged default for its availability
  zone, if there is one.
\<close>

fun defaultSubnetLoop :: "ec2_Subnet list \<Rightarrow> error + ec2_Subnet option" where
  "defaultSubnetLoop [] = Inr None"
| "defaultSubnetLoop (subnet # rest) =
     (case DefaultForAz subnet of
        None \<Rightarrow> Inl PanicNilDereference
      | Some d \<Rightarrow> if d = True then Inr (Some subnet) else defaultSubnetLoop rest)"

definition GetSubnet :: "environment \<Rightarrow> Config \<Rightarrow> string \<Rightarrow> call list
    \<Rightarrow> (error + ec2_Subnet) \<times> call list" where
  "GetSubnet env cfg vpcID tr =
     (let subnetName = Subnet (RunCfg cfg);
          filters = [\<lparr> FilterName = ''vpc-id'', FilterValues = [vpcID] \<rparr>]
                    @ (if subnetName \<noteq> []
                       then [\<lparr> FilterName = ''subnet-id'', FilterValues = [Subnet (RunCfg cfg)] \<rparr>]
                       else []);
          tr' = tr @ [DescribeSubnets filters]
      in case onDescribeSubnets env filters of
           Inl err \<Rightarrow> (Inl (Sdk err), tr')
         | Inr Subnets \<Rightarrow>
             if length Subnets = 0 \<and> subnetName \<noteq> [] then (Inl (NoSubnetsNamed subnetName), tr')
             else if length Subnets = 0 then (Inl NoSubnets, tr')
             else if subnetName \<noteq> []
             then (case defaultSubnetLoop Subnets of
                     Inl e \<Rightarrow> (Inl e, tr')
                   | Inr (Some subnet) \<Rightarrow> (Inr subnet, tr')
                   | Inr None \<Rightarrow> (Inr (Subnets ! 0), tr'))
             else (Inr (Subnets ! 0), tr'))"

section \<open>Security group\<close>

definition CheckValidSecurityGroup :: "environment \<Rightarrow> Config \<Rightarrow> call list
    \<Rightarrow> error option \<times> call list" where
  "CheckValidSecurityGroup env cfg tr =
     (let sg = SecurityGroup (RunCfg cfg);
          vpc = VPC (RunCfg cfg);
          tr' = tr @ [DescribeSecurityGroups sg]
      in case onDescribeSecurityGroups env sg of
           Inl err \<Rightarrow> (Some (GetSecurityGroup sg err), tr')
         | Inr SecurityGroups \<Rightarrow>
             if length SecurityGroups = 1
             then (case GroupVpcId (SecurityGroups ! 0) of
                     None \<Rightarrow> (Some PanicNilDereference, tr')
                   | Some got \<Rightarrow>
                       if got \<noteq> vpc then (Some (VpcMismatch sg (VPC (RunCfg cfg)) got), tr')
                       else (None, tr'))
             else if length SecurityGroups = 0 then (Some (SecurityGroupNotFound sg), tr')
             else (None, tr'))"

definition buildFirewallRule :: "string \<Rightarrow> int \<Rightarrow> ec2_IpPermission" where
  "buildFirewallRule protocol port =
     \<lparr> IpProtocol = protocol, FromPort = port, ToPort = port, IpRanges = [''0.0.0.0/0''] \<rparr>"

text \<open>
  \<^verbatim>\<open>CreateSG\<close>. Its two loops append one rule for each TCP port, then one for each UDP
  port, which is the two mapped lists one after the other.
\<close>

definition CreateSG :: "environment \<Rightarrow> Config \<Rightarrow> string \<Rightarrow> string \<Rightarrow> call list
    \<Rightarrow> (error + string) \<times> call list" where
  "CreateSG env cfg imgName vpcID tr =
     (let s = FormatInt (clockUnixNano env);
          sgName = imgName @ s;
          description = ''security group for '' @ imgName;
          tr' = tr @ [CreateSecurityGroup sgName description vpcID]
      in case onCreateSecurityGroup env sgName description vpcID of
           Inl err \<Rightarrow>
             (case err of
                AwsErr code msg \<Rightarrow>
                  if code = ''InvalidVpcID.NotFound'' then (Inl (UnableToFindVpc vpcID), tr')
                  else if code = ''InvalidGroup.Duplicate'' then (Inl (SecurityGroupExists imgName), tr')
                  else (Inl (UnableToCreateSecurityGroup imgName err), tr')
              | OtherErr m \<Rightarrow> (Inl (UnableToCreateSecurityGroup imgName err), tr'))
         | Inr createdGroupId \<Rightarrow>
             (let ec2Permissions = map (buildFirewallRule ''tcp'') (Ports (RunCfg cfg))
                                   @ map (buildFirewallRule ''udp'') (UDPPorts (RunCfg cfg))
              in if length ec2Permissions \<noteq> 0
                 then (let tr'' = tr' @ [AuthorizeSecurityGroupIngress createdGroupId ec2Permissions]
                       in case onAuthorizeSecurityGroupIngress env createdGroupId ec2Permissions of
                            Some err \<Rightarrow> (Inl (UnableToSetIngress imgName err), tr'')
                          | None \<Rightarrow> (Inr (StringValue createdGroupId), tr''))
                 else (Inr (StringValue createdGroupId), tr')))"

section \<open>Listing images and instances\<close>

text \<open>The text of an SDK error, as \<^verbatim>\<open>Error()\<close> gives it.\<close>

fun errorText :: "sdk_error \<Rightarrow> string" where
  "errorText (AwsErr code msg) = code @ '': '' @ msg"
| "errorText (OtherErr m) = m"

text \<open>
  \<^verbatim>\<open>getAWSImages\<close>: the error of opening the session is overwritten unread; either
  branch of the error handling makes a new error from the text.
\<close>

definition getAWSImages :: "environment \<Rightarrow> call list \<Rightarrow> (error + ec2_Image list) \<times> call list" where
  "getAWSImages env tr =
     (let tr' = tr @ [DescribeImages]
      in case onDescribeImages env of
           Inl err \<Rightarrow> (Inl (Sdk (OtherErr (errorText err))), tr')
         | Inr Images \<Rightarrow> (Inr Images, tr'))"

text \<open>The inner and the outer loop of \<^verbatim>\<open>getAWSInstances\<close>.\<close>

fun instancesLoop :: "CloudInstance list \<Rightarrow> ec2_Instance list \<Rightarrow> error + CloudInstance list" where
  "instancesLoop cinstances [] = Inr cinstances"
| "instancesLoop cinstances (instance # rest) =
     (case formalizeAWSInstance instance of
        Inl e \<Rightarrow> Inl e
      | Inr ci \<Rightarrow> instancesLoop (cinstances @ [ci]) rest)"

fun reservationsLoop :: "CloudInstance list \<Rightarrow> ec2_Reservation list \<Rightarrow> error + CloudInstance list" where
  "reservationsLoop cinstances [] = Inr cinstances"
| "reservationsLoop cinstances (reservation # rest) =
     (case instancesLoop cinstances (Instances reservation) of
        Inl e \<Rightarrow> Inl e
      | Inr cinstances' \<Rightarrow> reservationsLoop cinstances' rest)"

text \<open>How many requests of the two polled kinds were sent so far.\<close>

fun isDescribeInstances :: "call \<Rightarrow> bool" where
  "isDescribeInstances (DescribeInstances f) = True"
| "isDescribeInstances c = False"

fun isDescribeImportSnapshotTasks :: "call \<Rightarrow> bool" where
  "isDescribeImportSnapshotTasks (DescribeImportSnapshotTasks t) = True"
| "isDescribeImportSnapshotTasks c = False"

definition sentBefore :: "(call \<Rightarrow> bool) \<Rightarrow> call list \<Rightarrow> nat" where
  "sentBefore kind tr = length (filter kind tr)"

text \<open>
  \<^verbatim>\<open>getAWSInstances\<close> has no error result: when the request fails it ends the process
  with \<^verbatim>\<open>exitWithError\<close>.
\<close>

definition getAWSInstances :: "environment \<Rightarrow> ec2_Filter list \<Rightarrow> call list
    \<Rightarrow> (error + CloudInstance list) \<times> call list" where
  "getAWSInstances env filter' tr =
     (let tr' = tr @ [DescribeInstances filter']
      in case onDescribeInstances env (sentBefore isDescribeInstances tr) filter' of
           Inl err \<Rightarrow> (Inl (Exited ''invalid region''), tr')
         | Inr Reservations \<Rightarrow> (reservationsLoop [] Reservations, tr'))"

text \<open>
  \<^verbatim>\<open>GetInstanceByID\<close> searches by the tag "Name". \<^verbatim>\<open>ErrInstanceNotFound\<close> is
  defined outside this file; it is the error \<open>InstanceNotFound\<close> here.
\<close>

definition GetInstanceByID :: "environment \<Rightarrow> string \<Rightarrow> call list
    \<Rightarrow> (error + CloudInstance) \<times> call list" where
  "GetInstanceByID env id' tr =
     (let filters = [\<lparr> FilterName = ''tag:Name'', FilterValues = [id'] \<rparr>]
      in case getAWSInstances env filters tr of
           (Inl e, tr') \<Rightarrow> (Inl e, tr')
         | (Inr instances, tr') \<Rightarrow>
             if length instances = 0 then (Inl (InstanceNotFound id'), tr')
             else (Inr (instances ! 0), tr'))"

definition DeleteInstance :: "environment \<Rightarrow> string \<Rightarrow> call list \<Rightarrow> error option \<times> call list" where
  "DeleteInstance env instancename tr =
     (let tr' = tr @ [TerminateInstances instancename]
      in case onTerminateInstances env instancename of
           Some err \<Rightarrow> (Some (Sdk err), tr')
         | None \<Rightarrow> (None, tr'))"

section \<open>Creating an instance\<close>

text \<open>
  The loop of \<^verbatim>\<open>CreateInstance\<close> over the images, with its variables \<open>ami\<close> and
  \<open>last\<close> (here \<open>last'\<close>). The name \<open>n\<close> of an image is the value of its first tag
  (\<open>firstTagValue\<close>); reading the first tag of a non-nil empty slice panics.
\<close>

definition firstTagValue :: "ec2_Image \<Rightarrow> error + string" where
  "firstTagValue image' =
     (case ImageTags image' of
        None \<Rightarrow> Inr []
      | Some [] \<Rightarrow> Inl PanicIndexOutOfRange
      | Some (t # ts) \<Rightarrow> Inr (StringValue (TagValue t)))"

fun amiLoop :: "environment \<Rightarrow> string \<Rightarrow> string \<times> int \<Rightarrow> ec2_Image list \<Rightarrow> error + string \<times> int" where
  "amiLoop env imgName (ami, last') [] = Inr (ami, last')"
| "amiLoop env imgName (ami, last') (image' # rest) =
     (case firstTagValue image' of
        Inl e \<Rightarrow> Inl e
      | Inr n \<Rightarrow>
          if n \<noteq> [] \<and> n = imgName
          then (let ami' = StringValue (ImageId image');
                    ntime = StringValue (CreationDate image')
                in case timeParse env ntime of
                     Inl err \<Rightarrow> Inl (TimeParse err)
                   | Inr t \<Rightarrow>
                       if last' < t then amiLoop env imgName (ami', t) rest
                       else amiLoop env imgName (ami', last') rest)
          else amiLoop env imgName (ami, last') rest)"

text \<open>
  The polling loop of \<^verbatim>\<open>CreateInstance\<close>, by the value of \<open>pollCount\<close>, which only
  goes down. The pauses and the printing are left out. \<^verbatim>\<open>CreateDNSRecord\<close> is
  defined outside this file: it is a request to the DNS collaborator here.
\<close>

fun pollLoop :: "environment \<Rightarrow> Config \<Rightarrow> string \<Rightarrow> nat \<Rightarrow> call list \<Rightarrow> error option \<times> call list" where
  "pollLoop env cfg tagInstanceName 0 tr = (Some (OperationTimedOut 0), tr)"
| "pollLoop env cfg tagInstanceName (Suc pollCount) tr =
     (case GetInstanceByID env tagInstanceName tr of
        (Inl e, tr') \<Rightarrow>
          if returned e then pollLoop env cfg tagInstanceName pollCount tr' else (Some e, tr')
      | (Inr instance, tr') \<Rightarrow>
          if length (PublicIps instance) \<noteq> 0
          then (let ip = PublicIps instance ! 0;
                    tr'' = tr' @ [CreateDNSRecord (DomainName (RunCfg cfg)) ip]
                in case onCreateDNSRecord env (DomainName (RunCfg cfg)) ip of
                     Some err \<Rightarrow> (Some (Sdk err), tr'')
                   | None \<Rightarrow> (None, tr''))
          else (None, tr'))"

text \<open>
  The part of \<^verbatim>\<open>CreateInstance\<close> that settles the security group: the declared one,
  checked, when both a group and a network are declared, a new one otherwise.
\<close>

definition resolveSG :: "environment \<Rightarrow> Config \<Rightarrow> string \<Rightarrow> ec2_Vpc \<Rightarrow> call list
    \<Rightarrow> (error + string) \<times> call list" where
  "resolveSG env cfg imgName vpc tr =
     (if SecurityGroup (RunCfg cfg) \<noteq> [] \<and> VPC (RunCfg cfg) \<noteq> []
      then (case CheckValidSecurityGroup env cfg tr of
              (Some e, tr') \<Rightarrow> (Inl e, tr')
            | (None, tr') \<Rightarrow> (Inr (SecurityGroup (RunCfg cfg)), tr'))
      else (case VpcId vpc of
              None \<Rightarrow> (Inl PanicNilDereference, tr)
            | Some vpcID \<Rightarrow> CreateSG env cfg imgName vpcID tr))"

text \<open>
  The launch and what follows it. Reading the id of the first launched instance for the
  message panics when the answer holds no instance or no id.
\<close>

definition launch :: "environment \<Rightarrow> Config \<Rightarrow> string \<Rightarrow> string \<Rightarrow> ec2_Subnet \<Rightarrow> call list
    \<Rightarrow> error option \<times> call list" where
  "launch env cfg ami sg subnet tr =
     (let imgName = ImageName (CloudCfg cfg);
          flavor = (if Flavor (CloudCfg cfg) = [] then ''t2.micro'' else Flavor (CloudCfg cfg));
          (tags, tagInstanceName) =
             parseToAWSTags (Tags (RunCfg cfg)) (imgName @ ''-'' @ FormatInt (clockUnix env))
      in case SubnetId subnet of
           None \<Rightarrow> (Some PanicNilDereference, tr)
         | Some subnetId \<Rightarrow>
             (let input = \<lparr> RunImageId = ami, InstanceType = flavor, MinCount = 1, MaxCount = 1,
                            RunSubnetId = subnetId, SecurityGroupIds = [sg],
                            TagSpecifications = [(''instance'', tags), (''volume'', tags)] \<rparr>;
                  tr' = tr @ [RunInstances input]
              in case onRunInstances env input of
                   Inl err \<Rightarrow> (Some (Sdk err), tr')
                 | Inr [] \<Rightarrow> (Some PanicIndexOutOfRange, tr')
                 | Inr (i # rest) \<Rightarrow>
                     (case InstanceId i of
                        None \<Rightarrow> (Some PanicNilDereference, tr')
                      | Some instanceId \<Rightarrow>
                          if DomainName (RunCfg cfg) \<noteq> []
                          then pollLoop env cfg tagInstanceName 60 tr'
                          else (None, tr'))))"

definition CreateInstance :: "environment \<Rightarrow> Config \<Rightarrow> call list \<Rightarrow> error option \<times> call list" where
  "CreateInstance env cfg tr =
     (case getAWSImages env tr of
        (Inl err, tr1) \<Rightarrow> (Some (Exited ''Invalid zone''), tr1)
      | (Inr Images, tr1) \<Rightarrow>
          (let imgName = ImageName (CloudCfg cfg)
           in case amiLoop env imgName ([], 0) Images of
                Inl e \<Rightarrow> (Some e, tr1)
              | Inr (ami, last') \<Rightarrow>
                  if ami = [] then (Some CantFindAmi, tr1)
                  else (case GetVPC env cfg tr1 of
                          (Inl e, tr2) \<Rightarrow> (Some e, tr2)
                        | (Inr vpc, tr2) \<Rightarrow>
                            (case resolveSG env cfg imgName vpc tr2 of
                               (Inl e, tr3) \<Rightarrow> (Some e, tr3)
                             | (Inr sg, tr3) \<Rightarrow>
                                 (case VpcId vpc of
                                    None \<Rightarrow> (Some PanicNilDereference, tr3)
                                  | Some vpcID \<Rightarrow>
                                      (case GetSubnet env cfg vpcID tr3 of
                                         (Inl e, tr4) \<Rightarrow> (Some e, tr4)
                                       | (Inr subnet, tr4) \<Rightarrow> launch env cfg ami sg subnet tr4))))))"

section \<open>Creating an image\<close>

definition getEc2Service :: "environment \<Rightarrow> error option" where
  "getEc2Service env = (case onNewSession env of Some err \<Rightarrow> Some (Sdk err) | None \<Rightarrow> None)"

text \<open>
  The waiter of the SDK, as \<^verbatim>\<open>waitSnapshotToBeReady\<close> configures it. The values at
  the path \<^verbatim>\<open>ImportSnapshotTasks[].SnapshotTaskDetail.Status\<close> are the statuses that
  are there; a failed request has none. The three acceptors are tried in their order: all
  values "completed" (and at least one) ends the wait without error, any value "deleted"
  or "deleting" ends it with the error \<^verbatim>\<open>ResourceNotReady\<close>.
\<close>

fun statusesLoop :: "ImportSnapshotTask list \<Rightarrow> string list" where
  "statusesLoop [] = []"
| "statusesLoop (t # ts) =
     (case Detail t of
        None \<Rightarrow> statusesLoop ts
      | Some d \<Rightarrow> (case TaskStatus d of None \<Rightarrow> statusesLoop ts | Some s \<Rightarrow> s # statusesLoop ts))"

definition valuesAtPath :: "sdk_error + ImportSnapshotTask list \<Rightarrow> string list" where
  "valuesAtPath response = (case response of Inl err \<Rightarrow> [] | Inr tasks \<Rightarrow> statusesLoop tasks)"

definition acceptors :: "sdk_error + ImportSnapshotTask list \<Rightarrow> sdk_error option option" where
  "acceptors response =
     (let vals = valuesAtPath response
      in if vals \<noteq> [] \<and> list_all (\<lambda>v. v = ''completed'') vals then Some None
         else if list_ex (\<lambda>v. v = ''deleted'') vals
         then Some (Some (AwsErr ''ResourceNotReady'' ''failed waiting for successful resource state''))
         else if list_ex (\<lambda>v. v = ''deleting'') vals
         then Some (Some (AwsErr ''ResourceNotReady'' ''failed waiting for successful resource state''))
         else None)"

text \<open>
  \<^verbatim>\<open>WaitWithContext\<close> by the number of attempts left: each attempt sends the request
  and tries the acceptors; when none matches and attempts are left it waits and goes on,
  and after the last attempt it gives the error "exceeded wait attempts".
\<close>

fun WaitWithContext :: "environment \<Rightarrow> string option \<Rightarrow> nat \<Rightarrow> call list
    \<Rightarrow> sdk_error option \<times> call list" where
  "WaitWithContext env importTaskID 0 tr =
     (Some (AwsErr ''ResourceNotReady'' ''exceeded wait attempts''), tr)"
| "WaitWithContext env importTaskID (Suc attemptsLeft) tr =
     (let tr' = tr @ [DescribeImportSnapshotTasks importTaskID];
          response = onDescribeImportSnapshotTasks env
                       (sentBefore isDescribeImportSnapshotTasks tr) importTaskID
      in case acceptors response of
           Some outcome \<Rightarrow> (outcome, tr')
         | None \<Rightarrow> WaitWithContext env importTaskID attemptsLeft tr')"

text \<open>
  \<^verbatim>\<open>waitSnapshotToBeReady\<close>: a first request whose answer is only tested for an
  error, the waiter with 60 attempts, whose result the source does not assign, and a last
  request from whose first task the snapshot id is read.
\<close>

definition waitSnapshotToBeReady :: "environment \<Rightarrow> string option \<Rightarrow> call list
    \<Rightarrow> (error + string option) \<times> call list" where
  "waitSnapshotToBeReady env importTaskID tr =
     (case getEc2Service env of
        Some e \<Rightarrow> (Inl e, tr)
      | None \<Rightarrow>
          (let tr1 = tr @ [DescribeImportSnapshotTasks importTaskID]
           in case onDescribeImportSnapshotTasks env
                     (sentBefore isDescribeImportSnapshotTasks tr) importTaskID of
                Inl err \<Rightarrow> (Inl (Sdk err), tr1)
              | Inr first \<Rightarrow>
                  (case WaitWithContext env importTaskID 60 tr1 of
                     (waited, tr2) \<Rightarrow>
                       (let tr3 = tr2 @ [DescribeImportSnapshotTasks importTaskID]
                        in case onDescribeImportSnapshotTasks env
                                  (sentBefore isDescribeImportSnapshotTasks tr2) importTaskID of
                             Inl err \<Rightarrow> (Inl (Sdk err), tr3)
                           | Inr [] \<Rightarrow> (Inl PanicIndexOutOfRange, tr3)
                           | Inr (task # rest) \<Rightarrow>
                               (case Detail task of
                                  None \<Rightarrow> (Inl PanicNilDereference, tr3)
                                | Some d \<Rightarrow> (Inr (SnapshotId d), tr3))))))"

text \<open>
  \<^verbatim>\<open>CreateImage\<close>. The error of the last \<^verbatim>\<open>CreateTags\<close> is assigned and never
  read: the function returns nil after it.
\<close>

definition CreateImage :: "environment \<Rightarrow> Config \<Rightarrow> call list \<Rightarrow> error option \<times> call list" where
  "CreateImage env cfg tr =
     (case getEc2Service env of
        Some e \<Rightarrow> (Some e, tr)
      | None \<Rightarrow>
          (let bucket = BucketName (CloudCfg cfg);
               key = ImageName (CloudCfg cfg);
               tr1 = tr @ [ImportSnapshot bucket key]
           in case onImportSnapshot env bucket key of
                Inl err \<Rightarrow> (Some (Sdk err), tr1)
              | Inr importTaskId \<Rightarrow>
                  (case waitSnapshotToBeReady env importTaskId tr1 of
                     (Inl e, tr2) \<Rightarrow> (Some e, tr2)
                   | (Inr snapshotID, tr2) \<Rightarrow>
                       (let tr3 = tr2 @ [DeleteFromBucket key]
                        in case onDeleteFromBucket env key of
                             Some err \<Rightarrow> (Some (Sdk err), tr3)
                           | None \<Rightarrow>
                               (let nameTag = [\<lparr> TagKey = Some ''Name'', TagValue = Some key \<rparr>];
                                    tr4 = tr3 @ [CreateTags snapshotID nameTag]
                                in case onCreateTags env snapshotID nameTag of
                                     Some err \<Rightarrow> (Some (Sdk err), tr4)
                                   | None \<Rightarrow>
                                       (let s = FormatInt (clockUnixNano env);
                                            amiName = key @ s;
                                            rinput = \<lparr> RegName = amiName,
                                                       RegDescription = ''nanos image '' @ key,
                                                       RegSnapshotId = snapshotID \<rparr>;
                                            tr5 = tr4 @ [RegisterImage rinput]
                                        in case onRegisterImage env rinput of
                                             Inl err \<Rightarrow> (Some (Sdk err), tr5)
                                           | Inr registeredImageId \<Rightarrow>
                                               (let tr6 = tr5 @ [CreateTags registeredImageId nameTag];
                                                    err = onCreateTags env registeredImageId nameTag
                                                in (None, tr6))))))))"

section \<open>Example runs\<close>

text \<open>
  A world in which every request succeeds: two networks, the second flagged default; two
  subnets, the second flagged default for its zone; one security group \<open>sg-1\<close> in the
  network \<open>vpc-b\<close>; two images tagged \<open>img-v3\<close>, the one listed first created later
  than the one listed last; an import task that is completed at once; and a launched
  instance that shows a public address at every lookup.
\<close>

definition vpcA :: ec2_Vpc where
  "vpcA = \<lparr> VpcId = Some ''vpc-a'', IsDefault = Some False \<rparr>"

definition vpcB :: ec2_Vpc where
  "vpcB = \<lparr> VpcId = Some ''vpc-b'', IsDefault = Some True \<rparr>"

definition subnetA :: ec2_Subnet where
  "subnetA = \<lparr> SubnetId = Some ''subnet-a'', SubnetVpcId = Some ''vpc-b'', DefaultForAz = Some False \<rparr>"

definition subnetB :: ec2_Subnet where
  "subnetB = \<lparr> SubnetId = Some ''subnet-b'', SubnetVpcId = Some ''vpc-b'', DefaultForAz = Some True \<rparr>"

definition imageNew :: ec2_Image where
  "imageNew = \<lparr> ImageId = Some ''ami-new'',
                 ImageTags = Some [\<lparr> TagKey = Some ''Name'', TagValue = Some ''img-v3'' \<rparr>],
                 CreationDate = Some ''2020-02-02T00:00:00.000Z'' \<rparr>"

definition imageOld :: ec2_Image where
  "imageOld = \<lparr> ImageId = Some ''ami-old'',
                 ImageTags = Some [\<lparr> TagKey = Some ''Name'', TagValue = Some ''img-v3'' \<rparr>],
                 CreationDate = Some ''2020-01-01T00:00:00.000Z'' \<rparr>"

definition imageOther :: ec2_Image where
  "imageOther = \<lparr> ImageId = Some ''ami-other'', ImageTags = None,
                   CreationDate = Some ''2020-03-03T00:00:00.000Z'' \<rparr>"

definition exampleParse :: "string \<Rightarrow> string + int" where
  "exampleParse ntime =
     (if ntime = ''2020-01-01T00:00:00.000Z'' then Inr 1
      else if ntime = ''2020-02-02T00:00:00.000Z'' then Inr 2
      else if ntime = ''2020-03-03T00:00:00.000Z'' then Inr 3
      else Inl ''cannot parse'')"

definition launched :: ec2_Instance where
  "launched = \<lparr> InstanceId = Some ''i-1'', InstanceTags = [], NetworkInterfaces = [],
                 State = Some \<lparr> StateName = Some ''pending'' \<rparr>, LaunchTime = ''t0'' \<rparr>"

definition pendingInstance :: ec2_Instance where
  "pendingInstance =
     \<lparr> InstanceId = Some ''i-1'',
       InstanceTags = [\<lparr> TagKey = Some ''env'', TagValue = Some ''prod'' \<rparr>],
       NetworkInterfaces = [\<lparr> PrivateIpAddress = Some ''10.0.0.5'', Association = None \<rparr>],
       State = Some \<lparr> StateName = Some ''pending'' \<rparr>, LaunchTime = ''t0'' \<rparr>"

definition runningInstance :: ec2_Instance where
  "runningInstance =
     \<lparr> InstanceId = Some ''i-1'',
       InstanceTags = [\<lparr> TagKey = Some ''Name'', TagValue = Some ''first'' \<rparr>,
                       \<lparr> TagKey = Some ''env'', TagValue = Some ''prod'' \<rparr>,
                       \<lparr> TagKey = Some ''Name'', TagValue = Some ''second'' \<rparr>],
       NetworkInterfaces =
         [\<lparr> PrivateIpAddress = Some ''10.0.0.5'', Association = None \<rparr>,
          \<lparr> PrivateIpAddress = Some ''10.0.0.6'',
            Association = Some \<lparr> PublicIp = Some ''54.1.2.3'' \<rparr> \<rparr>,
          \<lparr> PrivateIpAddress = None, Association = Some \<lparr> PublicIp = None \<rparr> \<rparr>],
       State = Some \<lparr> StateName = Some ''running'' \<rparr>, LaunchTime = ''t0'' \<rparr>"

definition exampleEnv :: environment where
  "exampleEnv =
     \<lparr> onNewSession = None,
       onImportSnapshot = (\<lambda>bucket key. Inr (Some ''import-snap-1'')),
       onDescribeImportSnapshotTasks = (\<lambda>k task.
          Inr [\<lparr> ImportTaskId = task,
                 Detail = Some \<lparr> TaskStatus = Some ''completed'', SnapshotId = Some ''snap-1'' \<rparr> \<rparr>]),
       onDeleteFromBucket = (\<lambda>key. None),
       onCreateTags = (\<lambda>resource tags. None),
       onRegisterImage = (\<lambda>rinput. Inr (Some ''ami-1'')),
       onDescribeImages = Inr [imageNew, imageOther, imageOld],
       onDescribeVpcs = (\<lambda>input.
          if input = None then Inr [vpcA, vpcB]
          else if input = Some [\<lparr> FilterName = ''vpc-id'', FilterValues = [''vpc-a''] \<rparr>]
          then Inr [vpcA]
          else if input = Some [\<lparr> FilterName = ''vpc-id'', FilterValues = [''vpc-b''] \<rparr>]
          then Inr [vpcB]
          else Inr []),
       onDescribeSecurityGroups = (\<lambda>sg.
          if sg = ''sg-1'' then Inr [\<lparr> GroupId = Some ''sg-1'', GroupVpcId = Some ''vpc-b'' \<rparr>]
          else Inr []),
       onDescribeSubnets = (\<lambda>filters. Inr [subnetA, subnetB]),
       onCreateSecurityGroup = (\<lambda>name description vpc. Inr (Some ''sg-new'')),
       onAuthorizeSecurityGroupIngress = (\<lambda>gid permissions. None),
       onRunInstances = (\<lambda>input. Inr [launched]),
       onDescribeInstances = (\<lambda>k filters. Inr [\<lparr> Instances = [runningInstance] \<rparr>]),
       onCreateDNSRecord = (\<lambda>domain ip. None),
       onTerminateInstances = (\<lambda>instance. None),
       clockUnixNano = 1600000000000000000,
       clockUnix = 1600000000,
       timeParse = exampleParse \<rparr>"

definition exampleConfig :: Config where
  "exampleConfig =
     \<lparr> CloudCfg = \<lparr> BucketName = ''staging'', ImageName = ''img-v3'', Zone = ''us-west-1'',
                    Flavor = [] \<rparr>,
       RunCfg = \<lparr> SecurityGroup = [], VPC = [], Subnet = [], Ports = [22, 80], UDPPorts = [],
                  Tags = [], DomainName = [] \<rparr> \<rparr>"

text \<open>An import task that stays active: it never reaches a status the waiter accepts.\<close>

definition stuckEnv :: environment where
  "stuckEnv = exampleEnv \<lparr> onDescribeImportSnapshotTasks := (\<lambda>k task.
      Inr [\<lparr> ImportTaskId = task,
             Detail = Some \<lparr> TaskStatus = Some ''active'', SnapshotId = None \<rparr> \<rparr>]) \<rparr>"

text \<open>A world in which tagging the registered image fails, and nothing else does.\<close>

definition tagFailEnv :: environment where
  "tagFailEnv = exampleEnv \<lparr> onCreateTags := (\<lambda>resource tags.
      if resource = Some ''ami-1'' then Some (AwsErr ''RequestLimitExceeded'' ''slow down'')
      else None) \<rparr>"

text \<open>A launched instance that is found at the first lookup and has no public address yet.\<close>

definition pendingEnv :: environment where
  "pendingEnv = exampleEnv \<lparr> onDescribeInstances :=
      (\<lambda>k filters. Inr [\<lparr> Instances = [pendingInstance] \<rparr>]) \<rparr>"

definition domainConfig :: Config where
  "domainConfig = exampleConfig \<lparr> RunCfg := (RunCfg exampleConfig) \<lparr> DomainName := ''www.example.com'' \<rparr> \<rparr>"

text \<open>A request that declares a security group and a network.\<close>

definition declaredConfig :: "string \<Rightarrow> string \<Rightarrow> Config" where
  "declaredConfig sg vpc = exampleConfig \<lparr> RunCfg := (RunCfg exampleConfig)
      \<lparr> SecurityGroup := sg, VPC := vpc \<rparr> \<rparr>"

text \<open>A request with a tag set that declares the name twice, and a domain name.\<close>

definition namedConfig :: Config where
  "namedConfig = exampleConfig \<lparr> RunCfg := (RunCfg exampleConfig)
      \<lparr> Tags := [\<lparr> Key = ''Name'', Value = ''web'' \<rparr>, \<lparr> Key = ''env'', Value = ''prod'' \<rparr>,
                  \<lparr> Key = ''Name'', Value = ''web-2'' \<rparr>],
        DomainName := ''www.example.com'' \<rparr> \<rparr>"

text \<open>A request without ports.\<close>

definition portlessConfig :: Config where
  "portlessConfig = exampleConfig \<lparr> RunCfg := (RunCfg exampleConfig) \<lparr> Ports := [] \<rparr> \<rparr>"

section \<open>Instance descriptions: what the two loops compute\<close>

lemma instanceNameLoop_last:
  "instanceNameLoop acc ts =
     (if filter (\<lambda>t. StringValue (TagKey t) = ''Name'') ts = [] then acc
      else StringValue (TagValue (last (filter (\<lambda>t. StringValue (TagKey t) = ''Name'') ts))))"
  by (induction ts arbitrary: acc) auto

lemma ipsLoop_collect:
  "ipsLoop (pr, pu) ns =
     (pr @ map (\<lambda>n. StringValue (PrivateIpAddress n)) ns,
      pu @ concat (map (\<lambda>n. case Association n of None \<Rightarrow> []
                          | Some a \<Rightarrow> (case PublicIp a of None \<Rightarrow> [] | Some ip \<Rightarrow> [ip])) ns))"
  by (induction ns arbitrary: pr pu) (auto simp: StringValue_def split: option.splits)

text \<open>
  Claim C10. An instance description with a state is converted to a CloudInstance whose
  name is "unknown" when no tag has the key "Name" and otherwise the value of the last
  tag with that key; its private addresses are those of every interface, in order, and its
  public addresses are those of the interfaces that carry an association with a public
  address.
\<close>

theorem formalizeAWSInstance_name_and_addresses:
  assumes "State i = Some st"
  shows "\<exists>ci. formalizeAWSInstance i = Inr ci
    \<and> ((\<forall>t \<in> set (InstanceTags i). StringValue (TagKey t) \<noteq> ''Name'') \<longrightarrow> Name ci = ''unknown'')
    \<and> ((\<exists>t \<in> set (InstanceTags i). StringValue (TagKey t) = ''Name'') \<longrightarrow>
         Name ci = StringValue (TagValue (last (filter (\<lambda>t. StringValue (TagKey t) = ''Name'') (InstanceTags i)))))
    \<and> PrivateIps ci = map (\<lambda>n. StringValue (PrivateIpAddress n)) (NetworkInterfaces i)
    \<and> PublicIps ci = concat (map (\<lambda>n. case Association n of None \<Rightarrow> []
                          | Some a \<Rightarrow> (case PublicIp a of None \<Rightarrow> [] | Some ip \<Rightarrow> [ip])) (NetworkInterfaces i))"
  using assms
  by (auto simp: formalizeAWSInstance_def instanceNameLoop_last ipsLoop_collect filter_empty_conv)

theorem formalizeAWSInstance_name_and_addresses_witness:
  "State runningInstance = Some \<lparr> StateName = Some ''running'' \<rparr>
   \<and> State pendingInstance = Some \<lparr> StateName = Some ''pending'' \<rparr>
   \<and> (\<exists>ci. formalizeAWSInstance runningInstance = Inr ci \<and> Name ci = ''second''
         \<and> PrivateIps ci = [''10.0.0.5'', ''10.0.0.6'', []] \<and> PublicIps ci = [''54.1.2.3''])
   \<and> (\<exists>ci. formalizeAWSInstance pendingInstance = Inr ci \<and> Name ci = ''unknown''
         \<and> PrivateIps ci = [''10.0.0.5''] \<and> PublicIps ci = [])"
  using formalizeAWSInstance_name_and_addresses [of runningInstance "\<lparr> StateName = Some ''running'' \<rparr>"]
        formalizeAWSInstance_name_and_addresses [of pendingInstance "\<lparr> StateName = Some ''pending'' \<rparr>"]
  by (auto simp: runningInstance_def pendingInstance_def StringValue_def)

section \<open>The requests an operation sends\<close>

lemma parseLoop_collect:
  "parseLoop (tags, spec, name) cts =
     (tags @ map (\<lambda>t. \<lparr> TagKey = Some (Key t), TagValue = Some (Value t) \<rparr>) cts,
      spec \<or> (\<exists>t \<in> set cts. Key t = ''Name''),
      if filter (\<lambda>t. Key t = ''Name'') cts = [] then name
      else Value (last (filter (\<lambda>t. Key t = ''Name'') cts)))"
  by (induction cts arbitrary: tags spec name) (auto simp: filter_empty_conv)

lemma parseToAWSTags_eq:
  "parseToAWSTags cts d =
     (if \<forall>t \<in> set cts. Key t \<noteq> ''Name''
      then (map (\<lambda>t. \<lparr> TagKey = Some (Key t), TagValue = Some (Value t) \<rparr>) cts
              @ [\<lparr> TagKey = Some ''Name'', TagValue = Some d \<rparr>], d)
      else (map (\<lambda>t. \<lparr> TagKey = Some (Key t), TagValue = Some (Value t) \<rparr>) cts,
            Value (last (filter (\<lambda>t. Key t = ''Name'') cts))))"
  by (auto simp: parseToAWSTags_def parseLoop_collect filter_empty_conv)

lemma getAWSImages_trace:
  "getAWSImages env tr = (r, tr') \<Longrightarrow> tr' = tr @ [DescribeImages]"
  by (auto simp: getAWSImages_def Let_def split: sum.splits)

lemma getAWSImages_result:
  "getAWSImages env tr = (Inr Images, tr') \<Longrightarrow> onDescribeImages env = Inr Images"
  by (auto simp: getAWSImages_def Let_def split: sum.splits)

lemma GetVPC_trace:
  "GetVPC env cfg tr = (r, tr') \<Longrightarrow> \<exists>f. tr' = tr @ [DescribeVpcs f]"
  by (auto simp: GetVPC_def Let_def split: sum.splits option.splits if_splits)

lemma CheckValidSecurityGroup_trace:
  "CheckValidSecurityGroup env cfg tr = (r, tr') \<Longrightarrow>
     tr' = tr @ [DescribeSecurityGroups (SecurityGroup (RunCfg cfg))]"
  by (auto simp: CheckValidSecurityGroup_def Let_def split: sum.splits option.splits if_splits)

lemma CheckValidSecurityGroup_result:
  "fst (CheckValidSecurityGroup env cfg tr) = fst (CheckValidSecurityGroup env cfg tr0)"
  by (auto simp: CheckValidSecurityGroup_def Let_def split: sum.splits option.splits if_splits)

lemma GetSubnet_trace:
  "GetSubnet env cfg vpcID tr = (r, tr') \<Longrightarrow> \<exists>f. tr' = tr @ [DescribeSubnets f]"
  by (auto simp: GetSubnet_def Let_def split: sum.splits option.splits if_splits)

lemma CreateSG_trace:
  "CreateSG env cfg imgName vpcID tr = (r, tr') \<Longrightarrow>
     \<exists>n d. tr' = tr @ [CreateSecurityGroup n d vpcID]
       \<or> ((Ports (RunCfg cfg) \<noteq> [] \<or> UDPPorts (RunCfg cfg) \<noteq> []) \<and>
           (\<exists>g. tr' = tr @ [CreateSecurityGroup n d vpcID, AuthorizeSecurityGroupIngress g
              (map (buildFirewallRule ''tcp'') (Ports (RunCfg cfg)) @ map (buildFirewallRule ''udp'') (UDPPorts (RunCfg cfg)))]))"
  by (auto simp: CreateSG_def Let_def split: sum.splits option.splits if_splits sdk_error.splits)

lemma GetInstanceByID_trace:
  "GetInstanceByID env n tr = (r, tr') \<Longrightarrow>
     tr' = tr @ [DescribeInstances [\<lparr> FilterName = ''tag:Name'', FilterValues = [n] \<rparr>]]"
  by (auto simp: GetInstanceByID_def getAWSInstances_def Let_def split: sum.splits prod.splits if_splits)

lemma pollLoop_trace:
  "pollLoop env cfg n k tr = (r, tr') \<Longrightarrow>
     \<exists>new. tr' = tr @ new \<and> (\<forall>c \<in> set new.
        c = DescribeInstances [\<lparr> FilterName = ''tag:Name'', FilterValues = [n] \<rparr>]
        \<or> (\<exists>ip. c = CreateDNSRecord (DomainName (RunCfg cfg)) ip))"
proof (induction k arbitrary: tr r tr')
  case 0
  then show ?case by simp
next
  case (Suc k)
  obtain g tr1 where g: "GetInstanceByID env n tr = (g, tr1)" by (cases "GetInstanceByID env n tr")
  then have tr1: "tr1 = tr @ [DescribeInstances [\<lparr> FilterName = ''tag:Name'', FilterValues = [n] \<rparr>]]"
    by (rule GetInstanceByID_trace)
  show ?case
  proof (cases g)
    case (Inl e)
    show ?thesis
    proof (cases "returned e")
      case True
      with Suc.prems g Inl have "pollLoop env cfg n k tr1 = (r, tr')" by simp
      from Suc.IH[OF this] tr1 show ?thesis by auto
    next
      case False
      with Suc.prems g Inl tr1 show ?thesis by auto
    qed
  next
    case (Inr inst)
    with Suc.prems g tr1 show ?thesis
      by (auto simp: Let_def split: if_splits option.splits)
  qed
qed

lemma launch_trace:
  "launch env cfg ami sg subnet tr = (r, tr') \<Longrightarrow>
     \<exists>new. tr' = tr @ new \<and> (\<forall>c \<in> set new.
        (\<exists>input. c = RunInstances input \<and> RunImageId input = ami \<and> SecurityGroupIds input = [sg]
            \<and> Some (RunSubnetId input) = SubnetId subnet
            \<and> MinCount input = 1 \<and> MaxCount input = 1
            \<and> TagSpecifications input =
                [(''instance'', fst (parseToAWSTags (Tags (RunCfg cfg))
                     (ImageName (CloudCfg cfg) @ ''-'' @ FormatInt (clockUnix env)))),
                 (''volume'', fst (parseToAWSTags (Tags (RunCfg cfg))
                     (ImageName (CloudCfg cfg) @ ''-'' @ FormatInt (clockUnix env))))])
        \<or> c = DescribeInstances [\<lparr> FilterName = ''tag:Name'', FilterValues =
                 [snd (parseToAWSTags (Tags (RunCfg cfg))
                     (ImageName (CloudCfg cfg) @ ''-'' @ FormatInt (clockUnix env)))] \<rparr>]
        \<or> (\<exists>ip. c = CreateDNSRecord (DomainName (RunCfg cfg)) ip))"
  unfolding launch_def Let_def
  by (auto split: prod.splits option.splits sum.splits list.splits if_splits
           dest!: pollLoop_trace)

lemma resolveSG_trace:
  "resolveSG env cfg imgName vpc tr = (r, tr') \<Longrightarrow>
     (SecurityGroup (RunCfg cfg) \<noteq> [] \<and> VPC (RunCfg cfg) \<noteq> []
        \<and> tr' = tr @ [DescribeSecurityGroups (SecurityGroup (RunCfg cfg))]
        \<and> (\<forall>sg. r = Inr sg \<longrightarrow> sg = SecurityGroup (RunCfg cfg)
              \<and> fst (CheckValidSecurityGroup env cfg []) = None))
     \<or> (\<not> (SecurityGroup (RunCfg cfg) \<noteq> [] \<and> VPC (RunCfg cfg) \<noteq> [])
        \<and> (\<exists>new. tr' = tr @ new \<and> (\<forall>c \<in> set new.
              (\<exists>n d v. c = CreateSecurityGroup n d v)
              \<or> ((Ports (RunCfg cfg) \<noteq> [] \<or> UDPPorts (RunCfg cfg) \<noteq> []) \<and>
                  (\<exists>g. c = AuthorizeSecurityGroupIngress g
                     (map (buildFirewallRule ''tcp'') (Ports (RunCfg cfg)) @ map (buildFirewallRule ''udp'') (UDPPorts (RunCfg cfg))))))))"
proof (cases "SecurityGroup (RunCfg cfg) \<noteq> [] \<and> VPC (RunCfg cfg) \<noteq> []")
  case True
  assume a: "resolveSG env cfg imgName vpc tr = (r, tr')"
  obtain e t where c: "CheckValidSecurityGroup env cfg tr = (e, t)"
    by (cases "CheckValidSecurityGroup env cfg tr")
  from c have t: "t = tr @ [DescribeSecurityGroups (SecurityGroup (RunCfg cfg))]"
    by (rule CheckValidSecurityGroup_trace)
  from c have "fst (CheckValidSecurityGroup env cfg []) = e"
    using CheckValidSecurityGroup_result[of env cfg "[]" tr] by simp
  with a c t True show ?thesis
    by (auto simp: resolveSG_def split: option.splits)
next
  case False
  assume a: "resolveSG env cfg imgName vpc tr = (r, tr')"
  with False show ?thesis
    by (auto simp: resolveSG_def split: option.splits dest!: CreateSG_trace)
qed

lemma CreateInstance_calls:
  assumes "CreateInstance env cfg tr = (r, tr')"
  shows "\<exists>new. tr' = tr @ new \<and> (\<forall>c \<in> set new.
      c = DescribeImages
    \<or> (\<exists>f. c = DescribeVpcs f)
    \<or> (c = DescribeSecurityGroups (SecurityGroup (RunCfg cfg))
         \<and> SecurityGroup (RunCfg cfg) \<noteq> [] \<and> VPC (RunCfg cfg) \<noteq> [])
    \<or> ((\<exists>n d v. c = CreateSecurityGroup n d v)
         \<and> \<not> (SecurityGroup (RunCfg cfg) \<noteq> [] \<and> VPC (RunCfg cfg) \<noteq> []))
    \<or> ((\<exists>g. c = AuthorizeSecurityGroupIngress g
              (map (buildFirewallRule ''tcp'') (Ports (RunCfg cfg)) @ map (buildFirewallRule ''udp'') (UDPPorts (RunCfg cfg))))
         \<and> (Ports (RunCfg cfg) \<noteq> [] \<or> UDPPorts (RunCfg cfg) \<noteq> [])
         \<and> \<not> (SecurityGroup (RunCfg cfg) \<noteq> [] \<and> VPC (RunCfg cfg) \<noteq> []))
    \<or> (\<exists>f. c = DescribeSubnets f)
    \<or> (\<exists>input Images last'. c = RunInstances input
         \<and> onDescribeImages env = Inr Images
         \<and> amiLoop env (ImageName (CloudCfg cfg)) ([], 0) Images = Inr (RunImageId input, last')
         \<and> RunImageId input \<noteq> []
         \<and> (SecurityGroup (RunCfg cfg) \<noteq> [] \<and> VPC (RunCfg cfg) \<noteq> [] \<longrightarrow>
               SecurityGroupIds input = [SecurityGroup (RunCfg cfg)]
               \<and> fst (CheckValidSecurityGroup env cfg []) = None)
         \<and> MinCount input = 1 \<and> MaxCount input = 1
         \<and> TagSpecifications input =
                [(''instance'', fst (parseToAWSTags (Tags (RunCfg cfg))
                     (ImageName (CloudCfg cfg) @ ''-'' @ FormatInt (clockUnix env)))),
                 (''volume'', fst (parseToAWSTags (Tags (RunCfg cfg))
                     (ImageName (CloudCfg cfg) @ ''-'' @ FormatInt (clockUnix env))))])
    \<or> c = DescribeInstances [\<lparr> FilterName = ''tag:Name'', FilterValues =
                 [snd (parseToAWSTags (Tags (RunCfg cfg))
                     (ImageName (CloudCfg cfg) @ ''-'' @ FormatInt (clockUnix env)))] \<rparr>]
    \<or> (\<exists>ip. c = CreateDNSRecord (DomainName (RunCfg cfg)) ip))"
    (is "\<exists>new. tr' = tr @ new \<and> (\<forall>c \<in> set new. ?P c)")
proof -
  let ?both = "SecurityGroup (RunCfg cfg) \<noteq> [] \<and> VPC (RunCfg cfg) \<noteq> []"
  have P1: "?P DescribeImages" by simp
  have P2: "?P (DescribeVpcs f)" for f by simp
  have P6: "?P (DescribeSubnets f)" for f by simp
  obtain g tr1 where g: "getAWSImages env tr = (g, tr1)" by (cases "getAWSImages env tr")
  then have tr1: "tr1 = tr @ [DescribeImages]" by (rule getAWSImages_trace)
  show ?thesis
  proof (cases g)
    case (Inl e)
    with assms g have "tr' = tr @ [DescribeImages]" by (auto simp: CreateInstance_def tr1)
    then show ?thesis using P1 by auto
  next
    case (Inr Images)
    with g have imgs: "onDescribeImages env = Inr Images" by (auto dest: getAWSImages_result)
    show ?thesis
    proof (cases "amiLoop env (ImageName (CloudCfg cfg)) ([], 0) Images")
      case (Inl e)
      with assms g Inr have "tr' = tr @ [DescribeImages]" by (auto simp: CreateInstance_def tr1)
      then show ?thesis using P1 by auto
    next
      case amiR: (Inr al)
      obtain ami last' where al: "al = (ami, last')" by (cases al)
      show ?thesis
      proof (cases "ami = []")
        case True
        with assms g Inr amiR al have "tr' = tr @ [DescribeImages]"
          by (auto simp: CreateInstance_def tr1)
        then show ?thesis using P1 by auto
      next
        case False
        obtain v tr2 where v: "GetVPC env cfg tr1 = (v, tr2)" by (cases "GetVPC env cfg tr1")
        then obtain f where tr2: "tr2 = tr @ [DescribeImages, DescribeVpcs f]"
          by (auto dest: GetVPC_trace simp: tr1)
        show ?thesis
        proof (cases v)
          case (Inl e)
          with assms g Inr amiR al False v have "tr' = tr2" by (auto simp: CreateInstance_def)
          then show ?thesis using P1 P2 tr2 by auto
        next
          case vpcR: (Inr vpc)
          obtain s tr3 where s: "resolveSG env cfg (ImageName (CloudCfg cfg)) vpc tr2 = (s, tr3)"
            by (cases "resolveSG env cfg (ImageName (CloudCfg cfg)) vpc tr2")
          from resolveSG_trace[OF s] obtain mid where mid: "tr3 = tr2 @ mid"
            and midc: "\<forall>c \<in> set mid. ?P c"
            and sgc: "\<And>sg. s = Inr sg \<Longrightarrow> ?both \<Longrightarrow>
                sg = SecurityGroup (RunCfg cfg) \<and> fst (CheckValidSecurityGroup env cfg []) = None"
            by (elim disjE conjE exE) (simp, force)
          have pre3: "\<exists>new. tr3 = tr @ new \<and> (\<forall>c \<in> set new. ?P c)"
          proof (intro exI conjI)
            show "tr3 = tr @ ([DescribeImages, DescribeVpcs f] @ mid)" using mid tr2 by simp
            show "\<forall>c \<in> set ([DescribeImages, DescribeVpcs f] @ mid). ?P c"
              using midc P1 P2 by (simp del: ex_simps)
          qed
          show ?thesis
          proof (cases s)
            case (Inl e)
            with assms g Inr amiR al False v vpcR s have "tr' = tr3"
              by (auto simp: CreateInstance_def)
            then show ?thesis using pre3 by simp
          next
            case sgR: (Inr sg)
            show ?thesis
            proof (cases "VpcId vpc")
              case None
              with assms g Inr amiR al False v vpcR s sgR have "tr' = tr3"
                by (auto simp: CreateInstance_def)
              then show ?thesis using pre3 by simp
            next
              case (Some vpcID)
              obtain sn tr4 where sn: "GetSubnet env cfg vpcID tr3 = (sn, tr4)"
                by (cases "GetSubnet env cfg vpcID tr3")
              then obtain fs where tr4: "tr4 = tr3 @ [DescribeSubnets fs]"
                by (auto dest: GetSubnet_trace)
              from pre3 obtain n3 where n3: "tr3 = tr @ n3" "\<forall>c \<in> set n3. ?P c" by blast
              have pre4: "\<exists>new. tr4 = tr @ new \<and> (\<forall>c \<in> set new. ?P c)"
              proof (intro exI conjI)
                show "tr4 = tr @ (n3 @ [DescribeSubnets fs])" using tr4 n3 by simp
                show "\<forall>c \<in> set (n3 @ [DescribeSubnets fs]). ?P c"
                  using n3(2) P6 by (simp del: ex_simps)
              qed
              show ?thesis
              proof (cases sn)
                case (Inl e)
                with assms g Inr amiR al False v vpcR s sgR Some sn have "tr' = tr4"
                  by (auto simp: CreateInstance_def)
                then show ?thesis using pre4 by simp
              next
                case snR: (Inr subnet)
                with assms g Inr amiR al False v vpcR s sgR Some sn
                have l: "launch env cfg ami sg subnet tr4 = (r, tr')"
                  by (auto simp: CreateInstance_def)
                from launch_trace[OF l] obtain new where
                  new: "tr' = tr4 @ new" and
                  newc: "\<And>c. c \<in> set new \<Longrightarrow>
        (\<exists>input. c = RunInstances input \<and> RunImageId input = ami \<and> SecurityGroupIds input = [sg]
            \<and> Some (RunSubnetId input) = SubnetId subnet
            \<and> MinCount input = 1 \<and> MaxCount input = 1
            \<and> TagSpecifications input =
                [(''instance'', fst (parseToAWSTags (Tags (RunCfg cfg))
                     (ImageName (CloudCfg cfg) @ ''-'' @ FormatInt (clockUnix env)))),
                 (''volume'', fst (parseToAWSTags (Tags (RunCfg cfg))
                     (ImageName (CloudCfg cfg) @ ''-'' @ FormatInt (clockUnix env))))])
        \<or> c = DescribeInstances [\<lparr> FilterName = ''tag:Name'', FilterValues =
                 [snd (parseToAWSTags (Tags (RunCfg cfg))
                     (ImageName (CloudCfg cfg) @ ''-'' @ FormatInt (clockUnix env)))] \<rparr>]
        \<or> (\<exists>ip. c = CreateDNSRecord (DomainName (RunCfg cfg)) ip)" by blast
                have newP: "?P c" if "c \<in> set new" for c
                  using newc[OF that]
                proof (elim disjE exE conjE)
                  fix input
                  assume i: "c = RunInstances input" "RunImageId input = ami"
                    "SecurityGroupIds input = [sg]" "MinCount input = 1" "MaxCount input = 1"
                    "TagSpecifications input =
                [(''instance'', fst (parseToAWSTags (Tags (RunCfg cfg))
                     (ImageName (CloudCfg cfg) @ ''-'' @ FormatInt (clockUnix env)))),
                 (''volume'', fst (parseToAWSTags (Tags (RunCfg cfg))
                     (ImageName (CloudCfg cfg) @ ''-'' @ FormatInt (clockUnix env))))]"
                  have "amiLoop env (ImageName (CloudCfg cfg)) ([], 0) Images = Inr (RunImageId input, last')"
                    using amiR al i(2) by simp
                  moreover have "RunImageId input \<noteq> []" using False i(2) by simp
                  moreover have "?both \<longrightarrow> SecurityGroupIds input = [SecurityGroup (RunCfg cfg)]
                       \<and> fst (CheckValidSecurityGroup env cfg []) = None"
                    using sgc[OF sgR] i(3) by simp
                  ultimately show ?thesis using i(1,4,5,6) imgs by simp
                qed simp_all
                from pre4 obtain n4 where n4: "tr4 = tr @ n4" "\<forall>c \<in> set n4. ?P c" by blast
                show ?thesis
                proof (intro exI conjI)
                  show "tr' = tr @ (n4 @ new)" using new n4 by simp
                  show "\<forall>c \<in> set (n4 @ new). ?P c"
                    using n4(2) newP by (auto simp del: ex_simps)
                qed
              qed
            qed
          qed
        qed
      qed
    qed
  qed
qed

lemma FormatInt_clockUnix: "FormatInt 1600000000 = ''1600000000''"
  by (simp add: FormatInt_def digitsOf.simps char_of_def bit_Suc_0_iff)

lemma FormatInt_clockUnixNano: "FormatInt 1600000000000000000 = ''1600000000000000000''"
  by (simp add: FormatInt_def digitsOf.simps char_of_def bit_Suc_0_iff)

lemmas example_defs =
  exampleEnv_def exampleConfig_def domainConfig_def declaredConfig_def namedConfig_def
  portlessConfig_def stuckEnv_def tagFailEnv_def pendingEnv_def imageNew_def imageOld_def
  imageOther_def exampleParse_def vpcA_def vpcB_def subnetA_def subnetB_def launched_def
  pendingInstance_def runningInstance_def

lemmas model_defs =
  CreateInstance_def getAWSImages_def firstTagValue_def GetVPC_def resolveSG_def CreateSG_def
  CheckValidSecurityGroup_def GetSubnet_def launch_def parseToAWSTags_def buildFirewallRule_def
  GetInstanceByID_def getAWSInstances_def formalizeAWSInstance_def sentBefore_def StringValue_def
  FormatInt_clockUnix FormatInt_clockUnixNano Let_def

lemma CreateInstance_sent:
  assumes "c \<in> set (snd (CreateInstance env cfg []))"
  shows "
      c = DescribeImages
    \<or> (\<exists>f. c = DescribeVpcs f)
    \<or> (c = DescribeSecurityGroups (SecurityGroup (RunCfg cfg))
         \<and> SecurityGroup (RunCfg cfg) \<noteq> [] \<and> VPC (RunCfg cfg) \<noteq> [])
    \<or> ((\<exists>n d v. c = CreateSecurityGroup n d v)
         \<and> \<not> (SecurityGroup (RunCfg cfg) \<noteq> [] \<and> VPC (RunCfg cfg) \<noteq> []))
    \<or> ((\<exists>g. c = AuthorizeSecurityGroupIngress g
              (map (buildFirewallRule ''tcp'') (Ports (RunCfg cfg)) @ map (buildFirewallRule ''udp'') (UDPPorts (RunCfg cfg))))
         \<and> (Ports (RunCfg cfg) \<noteq> [] \<or> UDPPorts (RunCfg cfg) \<noteq> [])
         \<and> \<not> (SecurityGroup (RunCfg cfg) \<noteq> [] \<and> VPC (RunCfg cfg) \<noteq> []))
    \<or> (\<exists>f. c = DescribeSubnets f)
    \<or> (\<exists>input Images last'. c = RunInstances input
         \<and> onDescribeImages env = Inr Images
         \<and> amiLoop env (ImageName (CloudCfg cfg)) ([], 0) Images = Inr (RunImageId input, last')
         \<and> RunImageId input \<noteq> []
         \<and> (SecurityGroup (RunCfg cfg) \<noteq> [] \<and> VPC (RunCfg cfg) \<noteq> [] \<longrightarrow>
               SecurityGroupIds input = [SecurityGroup (RunCfg cfg)]
               \<and> fst (CheckValidSecurityGroup env cfg []) = None)
         \<and> MinCount input = 1 \<and> MaxCount input = 1
         \<and> TagSpecifications input =
                [(''instance'', fst (parseToAWSTags (Tags (RunCfg cfg))
                     (ImageName (CloudCfg cfg) @ ''-'' @ FormatInt (clockUnix env)))),
                 (''volume'', fst (parseToAWSTags (Tags (RunCfg cfg))
                     (ImageName (CloudCfg cfg) @ ''-'' @ FormatInt (clockUnix env))))])
    \<or> c = DescribeInstances [\<lparr> FilterName = ''tag:Name'', FilterValues =
                 [snd (parseToAWSTags (Tags (RunCfg cfg))
                     (ImageName (CloudCfg cfg) @ ''-'' @ FormatInt (clockUnix env)))] \<rparr>]
    \<or> (\<exists>ip. c = CreateDNSRecord (DomainName (RunCfg cfg)) ip)"
proof -
  obtain r tr' where run: "CreateInstance env cfg [] = (r, tr')"
    by (cases "CreateInstance env cfg []")
  have "\<exists>new. tr' = [] @ new \<and> (\<forall>c \<in> set new.
      c = DescribeImages
    \<or> (\<exists>f. c = DescribeVpcs f)
    \<or> (c = DescribeSecurityGroups (SecurityGroup (RunCfg cfg))
         \<and> SecurityGroup (RunCfg cfg) \<noteq> [] \<and> VPC (RunCfg cfg) \<noteq> [])
    \<or> ((\<exists>n d v. c = CreateSecurityGroup n d v)
         \<and> \<not> (SecurityGroup (RunCfg cfg) \<noteq> [] \<and> VPC (RunCfg cfg) \<noteq> []))
    \<or> ((\<exists>g. c = AuthorizeSecurityGroupIngress g
              (map (buildFirewallRule ''tcp'') (Ports (RunCfg cfg)) @ map (buildFirewallRule ''udp'') (UDPPorts (RunCfg cfg))))
         \<and> (Ports (RunCfg cfg) \<noteq> [] \<or> UDPPorts (RunCfg cfg) \<noteq> [])
         \<and> \<not> (SecurityGroup (RunCfg cfg) \<noteq> [] \<and> VPC (RunCfg cfg) \<noteq> []))
    \<or> (\<exists>f. c = DescribeSubnets f)
    \<or> (\<exists>input Images last'. c = RunInstances input
         \<and> onDescribeImages env = Inr Images
         \<and> amiLoop env (ImageName (CloudCfg cfg)) ([], 0) Images = Inr (RunImageId input, last')
         \<and> RunImageId input \<noteq> []
         \<and> (SecurityGroup (RunCfg cfg) \<noteq> [] \<and> VPC (RunCfg cfg) \<noteq> [] \<longrightarrow>
               SecurityGroupIds input = [SecurityGroup (RunCfg cfg)]
               \<and> fst (CheckValidSecurityGroup env cfg []) = None)
         \<and> MinCount input = 1 \<and> MaxCount input = 1
         \<and> TagSpecifications input =
                [(''instance'', fst (parseToAWSTags (Tags (RunCfg cfg))
                     (ImageName (CloudCfg cfg) @ ''-'' @ FormatInt (clockUnix env)))),
                 (''volume'', fst (parseToAWSTags (Tags (RunCfg cfg))
                     (ImageName (CloudCfg cfg) @ ''-'' @ FormatInt (clockUnix env))))])
    \<or> c = DescribeInstances [\<lparr> FilterName = ''tag:Name'', FilterValues =
                 [snd (parseToAWSTags (Tags (RunCfg cfg))
                     (ImageName (CloudCfg cfg) @ ''-'' @ FormatInt (clockUnix env)))] \<rparr>]
    \<or> (\<exists>ip. c = CreateDNSRecord (DomainName (RunCfg cfg)) ip))"
    by (rule CreateInstance_calls[OF run])
  then have all: "\<forall>c \<in> set tr'.
      c = DescribeImages
    \<or> (\<exists>f. c = DescribeVpcs f)
    \<or> (c = DescribeSecurityGroups (SecurityGroup (RunCfg cfg))
         \<and> SecurityGroup (RunCfg cfg) \<noteq> [] \<and> VPC (RunCfg cfg) \<noteq> [])
    \<or> ((\<exists>n d v. c = CreateSecurityGroup n d v)
         \<and> \<not> (SecurityGroup (RunCfg cfg) \<noteq> [] \<and> VPC (RunCfg cfg) \<noteq> []))
    \<or> ((\<exists>g. c = AuthorizeSecurityGroupIngress g
              (map (buildFirewallRule ''tcp'') (Ports (RunCfg cfg)) @ map (buildFirewallRule ''udp'') (UDPPorts (RunCfg cfg))))
         \<and> (Ports (RunCfg cfg) \<noteq> [] \<or> UDPPorts (RunCfg cfg) \<noteq> [])
         \<and> \<not> (SecurityGroup (RunCfg cfg) \<noteq> [] \<and> VPC (RunCfg cfg) \<noteq> []))
    \<or> (\<exists>f. c = DescribeSubnets f)
    \<or> (\<exists>input Images last'. c = RunInstances input
         \<and> onDescribeImages env = Inr Images
         \<and> amiLoop env (ImageName (CloudCfg cfg)) ([], 0) Images = Inr (RunImageId input, last')
         \<and> RunImageId input \<noteq> []
         \<and> (SecurityGroup (RunCfg cfg) \<noteq> [] \<and> VPC (RunCfg cfg) \<noteq> [] \<longrightarrow>
               SecurityGroupIds input = [SecurityGroup (RunCfg cfg)]
               \<and> fst (CheckValidSecurityGroup env cfg []) = None)
         \<and> MinCount input = 1 \<and> MaxCount input = 1
         \<and> TagSpecifications input =
                [(''instance'', fst (parseToAWSTags (Tags (RunCfg cfg))
                     (ImageName (CloudCfg cfg) @ ''-'' @ FormatInt (clockUnix env)))),
                 (''volume'', fst (parseToAWSTags (Tags (RunCfg cfg))
                     (ImageName (CloudCfg cfg) @ ''-'' @ FormatInt (clockUnix env))))])
    \<or> c = DescribeInstances [\<lparr> FilterName = ''tag:Name'', FilterValues =
                 [snd (parseToAWSTags (Tags (RunCfg cfg))
                     (ImageName (CloudCfg cfg) @ ''-'' @ FormatInt (clockUnix env)))] \<rparr>]
    \<or> (\<exists>ip. c = CreateDNSRecord (DomainName (RunCfg cfg)) ip)"
    by (elim exE conjE) (simp only: append_Nil)
  from assms run have mem: "c \<in> set tr'" by simp
  from bspec[OF all mem] show ?thesis .
qed

section \<open>Example runs of CreateInstance\<close>

lemma run_example:
  "CreateInstance exampleEnv exampleConfig [] =
    (None,
     [DescribeImages, DescribeVpcs None,
      CreateSecurityGroup ''img-v31600000000000000000'' ''security group for img-v3'' ''vpc-b'',
      AuthorizeSecurityGroupIngress (Some ''sg-new'')
        [\<lparr> IpProtocol = ''tcp'', FromPort = 22, ToPort = 22, IpRanges = [''0.0.0.0/0''] \<rparr>,
         \<lparr> IpProtocol = ''tcp'', FromPort = 80, ToPort = 80, IpRanges = [''0.0.0.0/0''] \<rparr>],
      DescribeSubnets [\<lparr> FilterName = ''vpc-id'', FilterValues = [''vpc-b''] \<rparr>],
      RunInstances \<lparr> RunImageId = ''ami-old'', InstanceType = ''t2.micro'', MinCount = 1,
         MaxCount = 1, RunSubnetId = ''subnet-a'', SecurityGroupIds = [''sg-new''],
         TagSpecifications =
           [(''instance'', [\<lparr> TagKey = Some ''Name'', TagValue = Some ''img-v3-1600000000'' \<rparr>]),
            (''volume'', [\<lparr> TagKey = Some ''Name'', TagValue = Some ''img-v3-1600000000'' \<rparr>])] \<rparr>])"
  by (simp add: model_defs example_defs numeral_eq_Suc)

lemma run_portless:
  "CreateInstance exampleEnv portlessConfig [] =
    (None,
     [DescribeImages, DescribeVpcs None,
      CreateSecurityGroup ''img-v31600000000000000000'' ''security group for img-v3'' ''vpc-b'',
      DescribeSubnets [\<lparr> FilterName = ''vpc-id'', FilterValues = [''vpc-b''] \<rparr>],
      RunInstances \<lparr> RunImageId = ''ami-old'', InstanceType = ''t2.micro'', MinCount = 1,
         MaxCount = 1, RunSubnetId = ''subnet-a'', SecurityGroupIds = [''sg-new''],
         TagSpecifications =
           [(''instance'', [\<lparr> TagKey = Some ''Name'', TagValue = Some ''img-v3-1600000000'' \<rparr>]),
            (''volume'', [\<lparr> TagKey = Some ''Name'', TagValue = Some ''img-v3-1600000000'' \<rparr>])] \<rparr>])"
  by (simp add: model_defs example_defs numeral_eq_Suc)

lemma run_declared:
  "CreateInstance exampleEnv (declaredConfig ''sg-1'' ''vpc-b'') [] =
    (None,
     [DescribeImages,
      DescribeVpcs (Some [\<lparr> FilterName = ''vpc-id'', FilterValues = [''vpc-b''] \<rparr>]),
      DescribeSecurityGroups ''sg-1'',
      DescribeSubnets [\<lparr> FilterName = ''vpc-id'', FilterValues = [''vpc-b''] \<rparr>],
      RunInstances \<lparr> RunImageId = ''ami-old'', InstanceType = ''t2.micro'', MinCount = 1,
         MaxCount = 1, RunSubnetId = ''subnet-a'', SecurityGroupIds = [''sg-1''],
         TagSpecifications =
           [(''instance'', [\<lparr> TagKey = Some ''Name'', TagValue = Some ''img-v3-1600000000'' \<rparr>]),
            (''volume'', [\<lparr> TagKey = Some ''Name'', TagValue = Some ''img-v3-1600000000'' \<rparr>])] \<rparr>])"
  by (simp add: model_defs example_defs numeral_eq_Suc)

lemma run_mismatch:
  "CreateInstance exampleEnv (declaredConfig ''sg-1'' ''vpc-a'') [] =
    (Some (VpcMismatch ''sg-1'' ''vpc-a'' ''vpc-b''),
     [DescribeImages,
      DescribeVpcs (Some [\<lparr> FilterName = ''vpc-id'', FilterValues = [''vpc-a''] \<rparr>]),
      DescribeSecurityGroups ''sg-1''])"
  by (simp add: model_defs example_defs numeral_eq_Suc)

section \<open>The name tag of a new instance\<close>

lemma run_domain:
  "CreateInstance exampleEnv domainConfig [] =
    (None,
     [DescribeImages, DescribeVpcs None,
      CreateSecurityGroup ''img-v31600000000000000000'' ''security group for img-v3'' ''vpc-b'',
      AuthorizeSecurityGroupIngress (Some ''sg-new'')
        [\<lparr> IpProtocol = ''tcp'', FromPort = 22, ToPort = 22, IpRanges = [''0.0.0.0/0''] \<rparr>,
         \<lparr> IpProtocol = ''tcp'', FromPort = 80, ToPort = 80, IpRanges = [''0.0.0.0/0''] \<rparr>],
      DescribeSubnets [\<lparr> FilterName = ''vpc-id'', FilterValues = [''vpc-b''] \<rparr>],
      RunInstances \<lparr> RunImageId = ''ami-old'', InstanceType = ''t2.micro'', MinCount = 1,
         MaxCount = 1, RunSubnetId = ''subnet-a'', SecurityGroupIds = [''sg-new''],
         TagSpecifications =
           [(''instance'', [\<lparr> TagKey = Some ''Name'', TagValue = Some ''img-v3-1600000000'' \<rparr>]),
            (''volume'', [\<lparr> TagKey = Some ''Name'', TagValue = Some ''img-v3-1600000000'' \<rparr>])] \<rparr>,
      DescribeInstances [\<lparr> FilterName = ''tag:Name'', FilterValues = [''img-v3-1600000000''] \<rparr>],
      CreateDNSRecord ''www.example.com'' ''54.1.2.3''])"
  by (simp add: model_defs example_defs numeral_eq_Suc)

lemma run_named:
  "CreateInstance exampleEnv namedConfig [] =
    (None,
     [DescribeImages, DescribeVpcs None,
      CreateSecurityGroup ''img-v31600000000000000000'' ''security group for img-v3'' ''vpc-b'',
      AuthorizeSecurityGroupIngress (Some ''sg-new'')
        [\<lparr> IpProtocol = ''tcp'', FromPort = 22, ToPort = 22, IpRanges = [''0.0.0.0/0''] \<rparr>,
         \<lparr> IpProtocol = ''tcp'', FromPort = 80, ToPort = 80, IpRanges = [''0.0.0.0/0''] \<rparr>],
      DescribeSubnets [\<lparr> FilterName = ''vpc-id'', FilterValues = [''vpc-b''] \<rparr>],
      RunInstances \<lparr> RunImageId = ''ami-old'', InstanceType = ''t2.micro'', MinCount = 1,
         MaxCount = 1, RunSubnetId = ''subnet-a'', SecurityGroupIds = [''sg-new''],
         TagSpecifications =
           [(''instance'', [\<lparr> TagKey = Some ''Name'', TagValue = Some ''web'' \<rparr>,
                            \<lparr> TagKey = Some ''env'', TagValue = Some ''prod'' \<rparr>,
                            \<lparr> TagKey = Some ''Name'', TagValue = Some ''web-2'' \<rparr>]),
            (''volume'', [\<lparr> TagKey = Some ''Name'', TagValue = Some ''web'' \<rparr>,
                            \<lparr> TagKey = Some ''env'', TagValue = Some ''prod'' \<rparr>,
                            \<lparr> TagKey = Some ''Name'', TagValue = Some ''web-2'' \<rparr>])] \<rparr>,
      DescribeInstances [\<lparr> FilterName = ''tag:Name'', FilterValues = [''web-2''] \<rparr>],
      CreateDNSRecord ''www.example.com'' ''54.1.2.3''])"
  by (simp add: model_defs example_defs numeral_eq_Suc)

text \<open>A run of the launch that ends without error has sent its launch request.\<close>

lemma pollLoop_keeps:
  "pollLoop env cfg n k tr = (r, tr') \<Longrightarrow> c \<in> set tr \<Longrightarrow> c \<in> set tr'"
  by (drule pollLoop_trace) auto

lemma launch_success_sends:
  "launch env cfg ami sg subnet tr = (None, tr') \<Longrightarrow>
     \<exists>input. RunInstances input \<in> set tr'
        \<and> TagSpecifications input =
             [(''instance'', fst (parseToAWSTags (Tags (RunCfg cfg))
                  (ImageName (CloudCfg cfg) @ ''-'' @ FormatInt (clockUnix env)))),
              (''volume'', fst (parseToAWSTags (Tags (RunCfg cfg))
                  (ImageName (CloudCfg cfg) @ ''-'' @ FormatInt (clockUnix env))))]"
  unfolding launch_def Let_def
  by (auto split: prod.splits option.splits sum.splits list.splits if_splits
           dest!: pollLoop_keeps)

lemma CreateInstance_success_launches:
  assumes "fst (CreateInstance env cfg tr) = None"
  shows "\<exists>input. RunInstances input \<in> set (snd (CreateInstance env cfg tr))
        \<and> TagSpecifications input =
             [(''instance'', fst (parseToAWSTags (Tags (RunCfg cfg))
                  (ImageName (CloudCfg cfg) @ ''-'' @ FormatInt (clockUnix env)))),
              (''volume'', fst (parseToAWSTags (Tags (RunCfg cfg))
                  (ImageName (CloudCfg cfg) @ ''-'' @ FormatInt (clockUnix env))))]"
proof -
  obtain tr' where r: "CreateInstance env cfg tr = (None, tr')"
    using assms by (cases "CreateInstance env cfg tr") simp
  then obtain ami sg subnet tr4 where "launch env cfg ami sg subnet tr4 = (None, tr')"
    unfolding CreateInstance_def Let_def
    by (auto split: prod.splits option.splits sum.splits if_splits)
  from launch_success_sends[OF this] r show ?thesis by simp
qed

text \<open>
  Claim C8. When the configured tags declare no "Name" tag, \<^verbatim>\<open>parseToAWSTags\<close> appends
  a Name tag holding the default name and returns that name; when they declare one, it
  appends nothing and returns the value of the last such tag. \<^verbatim>\<open>CreateInstance\<close> hands
  it the image name, a dash and the Unix time as the default name, launches with the
  resulting tags on the instance and on the volume, and every lookup of the polling loop
  searches by the resulting name. A run that ends without error has sent a launch request
  carrying these tags.
\<close>

theorem instance_name_tag:
  "((\<forall>t \<in> set configTags. Key t \<noteq> ''Name'') \<longrightarrow>
      parseToAWSTags configTags defaultName =
        (map (\<lambda>t. \<lparr> TagKey = Some (Key t), TagValue = Some (Value t) \<rparr>) configTags
           @ [\<lparr> TagKey = Some ''Name'', TagValue = Some defaultName \<rparr>], defaultName))
   \<and> ((\<exists>t \<in> set configTags. Key t = ''Name'') \<longrightarrow>
      parseToAWSTags configTags defaultName =
        (map (\<lambda>t. \<lparr> TagKey = Some (Key t), TagValue = Some (Value t) \<rparr>) configTags,
         Value (last (filter (\<lambda>t. Key t = ''Name'') configTags))))
   \<and> (\<forall>input. RunInstances input \<in> set (snd (CreateInstance env cfg [])) \<longrightarrow>
           TagSpecifications input =
             [(''instance'', fst (parseToAWSTags (Tags (RunCfg cfg))
                  (ImageName (CloudCfg cfg) @ ''-'' @ FormatInt (clockUnix env)))),
              (''volume'', fst (parseToAWSTags (Tags (RunCfg cfg))
                  (ImageName (CloudCfg cfg) @ ''-'' @ FormatInt (clockUnix env))))])
   \<and> (\<forall>f. DescribeInstances f \<in> set (snd (CreateInstance env cfg [])) \<longrightarrow>
           f = [\<lparr> FilterName = ''tag:Name'', FilterValues =
                 [snd (parseToAWSTags (Tags (RunCfg cfg))
                     (ImageName (CloudCfg cfg) @ ''-'' @ FormatInt (clockUnix env)))] \<rparr>])
   \<and> (fst (CreateInstance env cfg []) = None \<longrightarrow>
        (\<exists>input. RunInstances input \<in> set (snd (CreateInstance env cfg []))
           \<and> TagSpecifications input =
             [(''instance'', fst (parseToAWSTags (Tags (RunCfg cfg))
                  (ImageName (CloudCfg cfg) @ ''-'' @ FormatInt (clockUnix env)))),
              (''volume'', fst (parseToAWSTags (Tags (RunCfg cfg))
                  (ImageName (CloudCfg cfg) @ ''-'' @ FormatInt (clockUnix env))))]))"
proof (intro conjI allI impI)
  assume "fst (CreateInstance env cfg []) = None"
  then show "\<exists>input. RunInstances input \<in> set (snd (CreateInstance env cfg []))
           \<and> TagSpecifications input =
             [(''instance'', fst (parseToAWSTags (Tags (RunCfg cfg))
                  (ImageName (CloudCfg cfg) @ ''-'' @ FormatInt (clockUnix env)))),
              (''volume'', fst (parseToAWSTags (Tags (RunCfg cfg))
                  (ImageName (CloudCfg cfg) @ ''-'' @ FormatInt (clockUnix env))))]"
    by (rule CreateInstance_success_launches)
next
  fix input assume "RunInstances input \<in> set (snd (CreateInstance env cfg []))"
  from CreateInstance_sent[OF this]
  show "TagSpecifications input =
             [(''instance'', fst (parseToAWSTags (Tags (RunCfg cfg))
                  (ImageName (CloudCfg cfg) @ ''-'' @ FormatInt (clockUnix env)))),
              (''volume'', fst (parseToAWSTags (Tags (RunCfg cfg))
                  (ImageName (CloudCfg cfg) @ ''-'' @ FormatInt (clockUnix env))))]"
    by clarsimp
next
  fix f assume "DescribeInstances f \<in> set (snd (CreateInstance env cfg []))"
  from CreateInstance_sent[OF this]
  show "f = [\<lparr> FilterName = ''tag:Name'', FilterValues =
                 [snd (parseToAWSTags (Tags (RunCfg cfg))
                     (ImageName (CloudCfg cfg) @ ''-'' @ FormatInt (clockUnix env)))] \<rparr>]"
    by simp
qed (simp_all add: parseToAWSTags_eq)

theorem instance_name_tag_witness:
  "Tags (RunCfg domainConfig) = []
   \<and> map Key (Tags (RunCfg namedConfig)) = [''Name'', ''env'', ''Name'']
   \<and> parseToAWSTags (Tags (RunCfg domainConfig)) ''img-v3-1600000000'' =
        ([\<lparr> TagKey = Some ''Name'', TagValue = Some ''img-v3-1600000000'' \<rparr>], ''img-v3-1600000000'')
   \<and> snd (parseToAWSTags (Tags (RunCfg namedConfig)) ''img-v3-1600000000'') = ''web-2''
   \<and> DescribeInstances [\<lparr> FilterName = ''tag:Name'', FilterValues = [''img-v3-1600000000''] \<rparr>]
        \<in> set (snd (CreateInstance exampleEnv domainConfig []))
   \<and> DescribeInstances [\<lparr> FilterName = ''tag:Name'', FilterValues = [''web-2''] \<rparr>]
        \<in> set (snd (CreateInstance exampleEnv namedConfig []))
   \<and> [\<lparr> FilterName = ''tag:Name'', FilterValues = [''img-v3-1600000000''] \<rparr>] =
       [\<lparr> FilterName = ''tag:Name'', FilterValues =
          [snd (parseToAWSTags (Tags (RunCfg domainConfig))
             (ImageName (CloudCfg domainConfig) @ ''-'' @ FormatInt (clockUnix exampleEnv)))] \<rparr>]
   \<and> [\<lparr> FilterName = ''tag:Name'', FilterValues = [''web-2''] \<rparr>] =
       [\<lparr> FilterName = ''tag:Name'', FilterValues =
          [snd (parseToAWSTags (Tags (RunCfg namedConfig))
             (ImageName (CloudCfg namedConfig) @ ''-'' @ FormatInt (clockUnix exampleEnv)))] \<rparr>]
   \<and> fst (CreateInstance exampleEnv domainConfig []) = None
   \<and> RunInstances \<lparr> RunImageId = ''ami-old'', InstanceType = ''t2.micro'', MinCount = 1,
         MaxCount = 1, RunSubnetId = ''subnet-a'', SecurityGroupIds = [''sg-new''],
         TagSpecifications =
           [(''instance'', [\<lparr> TagKey = Some ''Name'', TagValue = Some ''img-v3-1600000000'' \<rparr>]),
            (''volume'', [\<lparr> TagKey = Some ''Name'', TagValue = Some ''img-v3-1600000000'' \<rparr>])] \<rparr>
        \<in> set (snd (CreateInstance exampleEnv domainConfig []))
   \<and> [(''instance'', [\<lparr> TagKey = Some ''Name'', TagValue = Some ''img-v3-1600000000'' \<rparr>]),
       (''volume'', [\<lparr> TagKey = Some ''Name'', TagValue = Some ''img-v3-1600000000'' \<rparr>])] =
       [(''instance'', fst (parseToAWSTags (Tags (RunCfg domainConfig))
            (ImageName (CloudCfg domainConfig) @ ''-'' @ FormatInt (clockUnix exampleEnv)))),
        (''volume'', fst (parseToAWSTags (Tags (RunCfg domainConfig))
            (ImageName (CloudCfg domainConfig) @ ''-'' @ FormatInt (clockUnix exampleEnv))))]
   \<and> fst (CreateInstance exampleEnv namedConfig []) = None
   \<and> RunInstances \<lparr> RunImageId = ''ami-old'', InstanceType = ''t2.micro'', MinCount = 1,
         MaxCount = 1, RunSubnetId = ''subnet-a'', SecurityGroupIds = [''sg-new''],
         TagSpecifications =
           [(''instance'', [\<lparr> TagKey = Some ''Name'', TagValue = Some ''web'' \<rparr>,
                            \<lparr> TagKey = Some ''env'', TagValue = Some ''prod'' \<rparr>,
                            \<lparr> TagKey = Some ''Name'', TagValue = Some ''web-2'' \<rparr>]),
            (''volume'', [\<lparr> TagKey = Some ''Name'', TagValue = Some ''web'' \<rparr>,
                            \<lparr> TagKey = Some ''env'', TagValue = Some ''prod'' \<rparr>,
                            \<lparr> TagKey = Some ''Name'', TagValue = Some ''web-2'' \<rparr>])] \<rparr>
        \<in> set (snd (CreateInstance exampleEnv namedConfig []))
   \<and> [(''instance'', [\<lparr> TagKey = Some ''Name'', TagValue = Some ''web'' \<rparr>,
                        \<lparr> TagKey = Some ''env'', TagValue = Some ''prod'' \<rparr>,
                        \<lparr> TagKey = Some ''Name'', TagValue = Some ''web-2'' \<rparr>]),
       (''volume'', [\<lparr> TagKey = Some ''Name'', TagValue = Some ''web'' \<rparr>,
                        \<lparr> TagKey = Some ''env'', TagValue = Some ''prod'' \<rparr>,
                        \<lparr> TagKey = Some ''Name'', TagValue = Some ''web-2'' \<rparr>])] =
       [(''instance'', fst (parseToAWSTags (Tags (RunCfg namedConfig))
            (ImageName (CloudCfg namedConfig) @ ''-'' @ FormatInt (clockUnix exampleEnv)))),
        (''volume'', fst (parseToAWSTags (Tags (RunCfg namedConfig))
            (ImageName (CloudCfg namedConfig) @ ''-'' @ FormatInt (clockUnix exampleEnv))))]"
proof -
  let ?launchDomain = "\<lparr> RunImageId = ''ami-old'', InstanceType = ''t2.micro'', MinCount = 1,
         MaxCount = 1, RunSubnetId = ''subnet-a'', SecurityGroupIds = [''sg-new''],
         TagSpecifications =
           [(''instance'', [\<lparr> TagKey = Some ''Name'', TagValue = Some ''img-v3-1600000000'' \<rparr>]),
            (''volume'', [\<lparr> TagKey = Some ''Name'', TagValue = Some ''img-v3-1600000000'' \<rparr>])] \<rparr>"
  let ?launchNamed = "\<lparr> RunImageId = ''ami-old'', InstanceType = ''t2.micro'', MinCount = 1,
         MaxCount = 1, RunSubnetId = ''subnet-a'', SecurityGroupIds = [''sg-new''],
         TagSpecifications =
           [(''instance'', [\<lparr> TagKey = Some ''Name'', TagValue = Some ''web'' \<rparr>,
                            \<lparr> TagKey = Some ''env'', TagValue = Some ''prod'' \<rparr>,
                            \<lparr> TagKey = Some ''Name'', TagValue = Some ''web-2'' \<rparr>]),
            (''volume'', [\<lparr> TagKey = Some ''Name'', TagValue = Some ''web'' \<rparr>,
                            \<lparr> TagKey = Some ''env'', TagValue = Some ''prod'' \<rparr>,
                            \<lparr> TagKey = Some ''Name'', TagValue = Some ''web-2'' \<rparr>])] \<rparr>"
  have h1: "\<forall>t \<in> set (Tags (RunCfg domainConfig)). Key t \<noteq> ''Name''"
    by (simp add: example_defs)
  have h2: "\<exists>t \<in> set (Tags (RunCfg namedConfig)). Key t = ''Name''"
    by (simp add: example_defs)
  have m1: "DescribeInstances [\<lparr> FilterName = ''tag:Name'', FilterValues = [''img-v3-1600000000''] \<rparr>]
        \<in> set (snd (CreateInstance exampleEnv domainConfig []))"
    by (simp add: run_domain)
  have m2: "DescribeInstances [\<lparr> FilterName = ''tag:Name'', FilterValues = [''web-2''] \<rparr>]
        \<in> set (snd (CreateInstance exampleEnv namedConfig []))"
    by (simp add: run_named)
  have m3: "RunInstances ?launchDomain \<in> set (snd (CreateInstance exampleEnv domainConfig []))"
    by (simp add: run_domain)
  have m4: "RunInstances ?launchNamed \<in> set (snd (CreateInstance exampleEnv namedConfig []))"
    by (simp add: run_named)
  have s1: "fst (CreateInstance exampleEnv domainConfig []) = None"
    by (simp add: run_domain)
  have s2: "fst (CreateInstance exampleEnv namedConfig []) = None"
    by (simp add: run_named)
  note t1 = instance_name_tag [of "Tags (RunCfg domainConfig)" "''img-v3-1600000000''" exampleEnv domainConfig]
  note t2 = instance_name_tag [of "Tags (RunCfg namedConfig)" "''img-v3-1600000000''" exampleEnv namedConfig]
  have c1: "parseToAWSTags (Tags (RunCfg domainConfig)) ''img-v3-1600000000'' =
        ([\<lparr> TagKey = Some ''Name'', TagValue = Some ''img-v3-1600000000'' \<rparr>], ''img-v3-1600000000'')"
    using t1 [THEN conjunct1, THEN mp, OF h1] by (simp add: example_defs)
  have c2: "snd (parseToAWSTags (Tags (RunCfg namedConfig)) ''img-v3-1600000000'') = ''web-2''"
    using t2 [THEN conjunct2, THEN conjunct1, THEN mp, OF h2] by (simp add: example_defs)
  note c3 = t1 [THEN conjunct2, THEN conjunct2, THEN conjunct2, THEN conjunct1, THEN spec, THEN mp, OF m1]
  note c4 = t2 [THEN conjunct2, THEN conjunct2, THEN conjunct2, THEN conjunct1, THEN spec, THEN mp, OF m2]
  have c5: "[(''instance'', [\<lparr> TagKey = Some ''Name'', TagValue = Some ''img-v3-1600000000'' \<rparr>]),
       (''volume'', [\<lparr> TagKey = Some ''Name'', TagValue = Some ''img-v3-1600000000'' \<rparr>])] =
       [(''instance'', fst (parseToAWSTags (Tags (RunCfg domainConfig))
            (ImageName (CloudCfg domainConfig) @ ''-'' @ FormatInt (clockUnix exampleEnv)))),
        (''volume'', fst (parseToAWSTags (Tags (RunCfg domainConfig))
            (ImageName (CloudCfg domainConfig) @ ''-'' @ FormatInt (clockUnix exampleEnv))))]"
    using t1 [THEN conjunct2, THEN conjunct2, THEN conjunct1, THEN spec, THEN mp, OF m3]
    by simp
  have c6: "[(''instance'', [\<lparr> TagKey = Some ''Name'', TagValue = Some ''web'' \<rparr>,
                        \<lparr> TagKey = Some ''env'', TagValue = Some ''prod'' \<rparr>,
                        \<lparr> TagKey = Some ''Name'', TagValue = Some ''web-2'' \<rparr>]),
       (''volume'', [\<lparr> TagKey = Some ''Name'', TagValue = Some ''web'' \<rparr>,
                        \<lparr> TagKey = Some ''env'', TagValue = Some ''prod'' \<rparr>,
                        \<lparr> TagKey = Some ''Name'', TagValue = Some ''web-2'' \<rparr>])] =
       [(''instance'', fst (parseToAWSTags (Tags (RunCfg namedConfig))
            (ImageName (CloudCfg namedConfig) @ ''-'' @ FormatInt (clockUnix exampleEnv)))),
        (''volume'', fst (parseToAWSTags (Tags (RunCfg namedConfig))
            (ImageName (CloudCfg namedConfig) @ ''-'' @ FormatInt (clockUnix exampleEnv))))]"
    using t2 [THEN conjunct2, THEN conjunct2, THEN conjunct1, THEN spec, THEN mp, OF m4]
    by simp
  have g1: "Tags (RunCfg domainConfig) = []" by (simp add: example_defs)
  have g2: "map Key (Tags (RunCfg namedConfig)) = [''Name'', ''env'', ''Name'']"
    by (simp add: example_defs)
  from g1 g2 c1 c2 m1 m2 c3 c4 s1 m3 c5 s2 m4 c6 show ?thesis by (intro conjI)
qed

section \<open>Validating a declared security group\<close>

text \<open>
  Claim C4. When the request declares both a security group and a network:
  \<^verbatim>\<open>CheckValidSecurityGroup\<close> fails with the mismatch error whenever the one group
  fetched lies in another network than the declared one, and with the not-found error when
  the lookup returns no group; a failed check is what \<^verbatim>\<open>CreateInstance\<close> gets in
  place of a group, and a passed check gives the declared group id unchanged after nothing
  but the one lookup. No run of \<^verbatim>\<open>CreateInstance\<close> then creates a security group or
  authorizes ingress, and any launch carries the declared group id and follows a passed
  check.
\<close>

theorem security_group_validation:
  assumes sg: "SecurityGroup (RunCfg cfg) \<noteq> []" and vpc: "VPC (RunCfg cfg) \<noteq> []"
  shows "(\<forall>g got. onDescribeSecurityGroups env (SecurityGroup (RunCfg cfg)) = Inr [g]
             \<and> GroupVpcId g = Some got \<and> got \<noteq> VPC (RunCfg cfg) \<longrightarrow>
           CheckValidSecurityGroup env cfg tr =
             (Some (VpcMismatch (SecurityGroup (RunCfg cfg)) (VPC (RunCfg cfg)) got),
              tr @ [DescribeSecurityGroups (SecurityGroup (RunCfg cfg))]))
    \<and> (onDescribeSecurityGroups env (SecurityGroup (RunCfg cfg)) = Inr [] \<longrightarrow>
           CheckValidSecurityGroup env cfg tr =
             (Some (SecurityGroupNotFound (SecurityGroup (RunCfg cfg))),
              tr @ [DescribeSecurityGroups (SecurityGroup (RunCfg cfg))]))
    \<and> (\<forall>e. fst (CheckValidSecurityGroup env cfg tr) = Some e \<longrightarrow>
           resolveSG env cfg imgName network tr =
             (Inl e, tr @ [DescribeSecurityGroups (SecurityGroup (RunCfg cfg))]))
    \<and> (fst (CheckValidSecurityGroup env cfg tr) = None \<longrightarrow>
           resolveSG env cfg imgName network tr =
             (Inr (SecurityGroup (RunCfg cfg)),
              tr @ [DescribeSecurityGroups (SecurityGroup (RunCfg cfg))]))
    \<and> (\<forall>n d v. CreateSecurityGroup n d v \<notin> set (snd (CreateInstance env cfg [])))
    \<and> (\<forall>g ps. AuthorizeSecurityGroupIngress g ps \<notin> set (snd (CreateInstance env cfg [])))
    \<and> (\<forall>input. RunInstances input \<in> set (snd (CreateInstance env cfg [])) \<longrightarrow>
           SecurityGroupIds input = [SecurityGroup (RunCfg cfg)]
           \<and> fst (CheckValidSecurityGroup env cfg tr) = None)"
proof (intro conjI allI impI notI)
  fix g got
  assume "onDescribeSecurityGroups env (SecurityGroup (RunCfg cfg)) = Inr [g]
             \<and> GroupVpcId g = Some got \<and> got \<noteq> VPC (RunCfg cfg)"
  then show "CheckValidSecurityGroup env cfg tr =
             (Some (VpcMismatch (SecurityGroup (RunCfg cfg)) (VPC (RunCfg cfg)) got),
              tr @ [DescribeSecurityGroups (SecurityGroup (RunCfg cfg))])"
    by (simp add: CheckValidSecurityGroup_def Let_def)
next
  assume "onDescribeSecurityGroups env (SecurityGroup (RunCfg cfg)) = Inr []"
  then show "CheckValidSecurityGroup env cfg tr =
             (Some (SecurityGroupNotFound (SecurityGroup (RunCfg cfg))),
              tr @ [DescribeSecurityGroups (SecurityGroup (RunCfg cfg))])"
    by (simp add: CheckValidSecurityGroup_def Let_def)
next
  fix e assume e: "fst (CheckValidSecurityGroup env cfg tr) = Some e"
  obtain r t where c: "CheckValidSecurityGroup env cfg tr = (r, t)"
    by (cases "CheckValidSecurityGroup env cfg tr")
  from CheckValidSecurityGroup_trace[OF c] c e sg vpc
  show "resolveSG env cfg imgName network tr =
             (Inl e, tr @ [DescribeSecurityGroups (SecurityGroup (RunCfg cfg))])"
    by (simp add: resolveSG_def)
next
  assume e: "fst (CheckValidSecurityGroup env cfg tr) = None"
  obtain r t where c: "CheckValidSecurityGroup env cfg tr = (r, t)"
    by (cases "CheckValidSecurityGroup env cfg tr")
  from CheckValidSecurityGroup_trace[OF c] c e sg vpc
  show "resolveSG env cfg imgName network tr =
             (Inr (SecurityGroup (RunCfg cfg)),
              tr @ [DescribeSecurityGroups (SecurityGroup (RunCfg cfg))])"
    by (simp add: resolveSG_def)
next
  fix n d v assume "CreateSecurityGroup n d v \<in> set (snd (CreateInstance env cfg []))"
  from CreateInstance_sent[OF this] sg vpc show False by simp
next
  fix g ps assume "AuthorizeSecurityGroupIngress g ps \<in> set (snd (CreateInstance env cfg []))"
  from CreateInstance_sent[OF this] sg vpc show False by simp
next
  fix input assume "RunInstances input \<in> set (snd (CreateInstance env cfg []))"
  from CreateInstance_sent[OF this] sg vpc
  have "SecurityGroupIds input = [SecurityGroup (RunCfg cfg)]
           \<and> fst (CheckValidSecurityGroup env cfg []) = None"
    by clarsimp
  then show "SecurityGroupIds input = [SecurityGroup (RunCfg cfg)]"
    and "fst (CheckValidSecurityGroup env cfg tr) = None"
    using CheckValidSecurityGroup_result[of env cfg tr "[]"] by simp_all
qed

theorem security_group_validation_witness:
  "SecurityGroup (RunCfg (declaredConfig ''sg-1'' ''vpc-a'')) = ''sg-1''
   \<and> VPC (RunCfg (declaredConfig ''sg-1'' ''vpc-a'')) = ''vpc-a''
   \<and> onDescribeSecurityGroups exampleEnv ''sg-1'' =
        Inr [\<lparr> GroupId = Some ''sg-1'', GroupVpcId = Some ''vpc-b'' \<rparr>]
   \<and> onDescribeSecurityGroups exampleEnv ''sg-9'' = Inr []
   \<and> CheckValidSecurityGroup exampleEnv (declaredConfig ''sg-1'' ''vpc-a'') [] =
        (Some (VpcMismatch ''sg-1'' ''vpc-a'' ''vpc-b''), [DescribeSecurityGroups ''sg-1''])
   \<and> resolveSG exampleEnv (declaredConfig ''sg-1'' ''vpc-a'') ''img-v3'' vpcA [] =
        (Inl (VpcMismatch ''sg-1'' ''vpc-a'' ''vpc-b''), [DescribeSecurityGroups ''sg-1''])
   \<and> CheckValidSecurityGroup exampleEnv (declaredConfig ''sg-9'' ''vpc-b'') [] =
        (Some (SecurityGroupNotFound ''sg-9''), [DescribeSecurityGroups ''sg-9''])
   \<and> resolveSG exampleEnv (declaredConfig ''sg-1'' ''vpc-b'') ''img-v3'' vpcB [] =
        (Inr ''sg-1'', [DescribeSecurityGroups ''sg-1''])
   \<and> RunInstances \<lparr> RunImageId = ''ami-old'', InstanceType = ''t2.micro'', MinCount = 1,
         MaxCount = 1, RunSubnetId = ''subnet-a'', SecurityGroupIds = [''sg-1''],
         TagSpecifications =
           [(''instance'', [\<lparr> TagKey = Some ''Name'', TagValue = Some ''img-v3-1600000000'' \<rparr>]),
            (''volume'', [\<lparr> TagKey = Some ''Name'', TagValue = Some ''img-v3-1600000000'' \<rparr>])] \<rparr>
        \<in> set (snd (CreateInstance exampleEnv (declaredConfig ''sg-1'' ''vpc-b'') []))
   \<and> fst (CheckValidSecurityGroup exampleEnv (declaredConfig ''sg-1'' ''vpc-b'') []) = None"
proof -
  let ?mis = "declaredConfig ''sg-1'' ''vpc-a''"
  let ?nf = "declaredConfig ''sg-9'' ''vpc-b''"
  let ?ok = "declaredConfig ''sg-1'' ''vpc-b''"
  let ?g = "\<lparr> GroupId = Some ''sg-1'', GroupVpcId = Some ''vpc-b'' \<rparr>"
  let ?input = "\<lparr> RunImageId = ''ami-old'', InstanceType = ''t2.micro'', MinCount = 1,
         MaxCount = 1, RunSubnetId = ''subnet-a'', SecurityGroupIds = [''sg-1''],
         TagSpecifications =
           [(''instance'', [\<lparr> TagKey = Some ''Name'', TagValue = Some ''img-v3-1600000000'' \<rparr>]),
            (''volume'', [\<lparr> TagKey = Some ''Name'', TagValue = Some ''img-v3-1600000000'' \<rparr>])] \<rparr>"
  have a: "SecurityGroup (RunCfg c) \<noteq> []" "VPC (RunCfg c) \<noteq> []"
    if "c = ?mis \<or> c = ?nf \<or> c = ?ok" for c
    using that by (auto simp: example_defs)
  have pre: "onDescribeSecurityGroups exampleEnv (SecurityGroup (RunCfg ?mis)) = Inr [?g]
             \<and> GroupVpcId ?g = Some ''vpc-b'' \<and> ''vpc-b'' \<noteq> VPC (RunCfg ?mis)"
    by (simp add: example_defs)
  have c1: "CheckValidSecurityGroup exampleEnv ?mis [] =
             (Some (VpcMismatch (SecurityGroup (RunCfg ?mis)) (VPC (RunCfg ?mis)) ''vpc-b''),
              [] @ [DescribeSecurityGroups (SecurityGroup (RunCfg ?mis))])"
    using security_group_validation [where cfg = ?mis and env = exampleEnv and tr = "[]",
        OF a(1) a(2), THEN conjunct1, THEN spec, THEN spec, THEN mp, OF _ _ pre]
    by simp
  have pre2: "onDescribeSecurityGroups exampleEnv (SecurityGroup (RunCfg ?nf)) = Inr []"
    by (simp add: example_defs)
  have c2: "CheckValidSecurityGroup exampleEnv ?nf [] =
             (Some (SecurityGroupNotFound (SecurityGroup (RunCfg ?nf))),
              [] @ [DescribeSecurityGroups (SecurityGroup (RunCfg ?nf))])"
    using security_group_validation [where cfg = ?nf and env = exampleEnv and tr = "[]",
        OF a(1) a(2), THEN conjunct2, THEN conjunct1, THEN mp, OF _ _ pre2]
    by simp
  have c3: "resolveSG exampleEnv ?mis ''img-v3'' vpcA [] =
             (Inl (VpcMismatch (SecurityGroup (RunCfg ?mis)) (VPC (RunCfg ?mis)) ''vpc-b''),
              [] @ [DescribeSecurityGroups (SecurityGroup (RunCfg ?mis))])"
    using security_group_validation [where cfg = ?mis and env = exampleEnv and tr = "[]"
        and imgName = "''img-v3''" and network = vpcA,
        OF a(1) a(2), THEN conjunct2, THEN conjunct2, THEN conjunct1, THEN spec, THEN mp] c1
    by simp
  have mem: "RunInstances ?input \<in> set (snd (CreateInstance exampleEnv ?ok []))"
    by (simp add: run_declared)
  have c7: "SecurityGroupIds ?input = [SecurityGroup (RunCfg ?ok)]
           \<and> fst (CheckValidSecurityGroup exampleEnv ?ok []) = None"
    using security_group_validation [where cfg = ?ok and env = exampleEnv and tr = "[]",
        OF a(1) a(2), THEN conjunct2, THEN conjunct2, THEN conjunct2, THEN conjunct2,
        THEN conjunct2, THEN conjunct2, THEN spec, THEN mp, OF _ _ mem]
    by simp
  have c4: "resolveSG exampleEnv ?ok ''img-v3'' vpcB [] =
             (Inr (SecurityGroup (RunCfg ?ok)),
              [] @ [DescribeSecurityGroups (SecurityGroup (RunCfg ?ok))])"
    using security_group_validation [where cfg = ?ok and env = exampleEnv and tr = "[]"
        and imgName = "''img-v3''" and network = vpcB,
        OF a(1) a(2), THEN conjunct2, THEN conjunct2, THEN conjunct2, THEN conjunct1, THEN mp] c7
    by simp
  have e: "SecurityGroup (RunCfg ?mis) = ''sg-1''" "VPC (RunCfg ?mis) = ''vpc-a''"
    "SecurityGroup (RunCfg ?nf) = ''sg-9''" "SecurityGroup (RunCfg ?ok) = ''sg-1''"
    "onDescribeSecurityGroups exampleEnv ''sg-1'' = Inr [?g]"
    "onDescribeSecurityGroups exampleEnv ''sg-9'' = Inr []"
    by (simp_all add: example_defs)
  from c1 c2 c3 c4 c7 mem e show ?thesis by simp
qed

section \<open>Selecting the image to launch\<close>

lemma amiLoop_selects_last:
  "amiLoop env imgName (ami, l) images = Inr (ami', l') \<Longrightarrow>
     ami' = (if filter (\<lambda>i. imgName \<noteq> [] \<and> firstTagValue i = Inr imgName) images = [] then ami
             else StringValue (ImageId (last
                    (filter (\<lambda>i. imgName \<noteq> [] \<and> firstTagValue i = Inr imgName) images))))"
proof (induction images arbitrary: ami l)
  case Nil
  then show ?case by simp
next
  case (Cons i images)
  show ?case
  proof (cases "firstTagValue i")
    case (Inl e)
    with Cons.prems show ?thesis by simp
  next
    case (Inr n)
    show ?thesis
    proof (cases "n \<noteq> [] \<and> n = imgName")
      case False
      with Cons.prems Inr have "amiLoop env imgName (ami, l) images = Inr (ami', l')" by simp
      from Cons.IH[OF this] False Inr show ?thesis by auto
    next
      case True
      with Cons.prems Inr obtain l1 where
        "amiLoop env imgName (StringValue (ImageId i), l1) images = Inr (ami', l')"
        by (auto simp: Let_def split: sum.splits if_splits)
      from Cons.IH[OF this] True Inr show ?thesis by auto
    qed
  qed
qed

lemma amiLoop_returns:
  "\<forall>i \<in> set images. firstTagValue i \<noteq> Inl PanicIndexOutOfRange \<Longrightarrow>
   \<forall>i \<in> set images. imgName \<noteq> [] \<and> firstTagValue i = Inr imgName \<longrightarrow>
       (\<exists>t. timeParse env (StringValue (CreationDate i)) = Inr t) \<Longrightarrow>
   \<exists>r. amiLoop env imgName (ami, l) images = Inr r"
proof (induction images arbitrary: ami l)
  case Nil
  then show ?case by simp
next
  case (Cons i images)
  have tl: "\<And>a b. \<exists>r. amiLoop env imgName (a, b) images = Inr r"
    using Cons.IH Cons.prems by simp
  from Cons.prems(1) obtain n where n: "firstTagValue i = Inr n"
    by (cases "firstTagValue i") (auto simp: firstTagValue_def split: option.splits list.splits)
  show ?case
  proof (cases "n \<noteq> [] \<and> n = imgName")
    case False
    with n tl show ?thesis by auto
  next
    case True
    with n Cons.prems(2) obtain t where "timeParse env (StringValue (CreationDate i)) = Inr t"
      by auto
    with True n tl show ?thesis by (auto simp: Let_def)
  qed
qed

text \<open>
  Claim C9. The image \<^verbatim>\<open>CreateInstance\<close> launches is the last one, in the order of the
  provider's list, whose first tag value is the requested image name: the loop returns its
  id whatever the creation dates are (they only have to parse), and every launch request
  carries that id.
\<close>

theorem launches_last_matching_image:
  assumes "onDescribeImages env = Inr images"
  shows "(\<forall>ami l. amiLoop env (ImageName (CloudCfg cfg)) ([], 0) images = Inr (ami, l) \<longrightarrow>
           ami = (if filter (\<lambda>i. ImageName (CloudCfg cfg) \<noteq> []
                               \<and> firstTagValue i = Inr (ImageName (CloudCfg cfg))) images = []
                  then []
                  else StringValue (ImageId (last (filter (\<lambda>i. ImageName (CloudCfg cfg) \<noteq> []
                               \<and> firstTagValue i = Inr (ImageName (CloudCfg cfg))) images)))))
    \<and> ((\<forall>i \<in> set images. firstTagValue i \<noteq> Inl PanicIndexOutOfRange)
         \<and> (\<forall>i \<in> set images. ImageName (CloudCfg cfg) \<noteq> []
                \<and> firstTagValue i = Inr (ImageName (CloudCfg cfg)) \<longrightarrow>
              (\<exists>t. timeParse env (StringValue (CreationDate i)) = Inr t)) \<longrightarrow>
         (\<exists>ami l. amiLoop env (ImageName (CloudCfg cfg)) ([], 0) images = Inr (ami, l)))
    \<and> (\<forall>input. RunInstances input \<in> set (snd (CreateInstance env cfg [])) \<longrightarrow>
           filter (\<lambda>i. ImageName (CloudCfg cfg) \<noteq> []
                       \<and> firstTagValue i = Inr (ImageName (CloudCfg cfg))) images \<noteq> []
           \<and> RunImageId input =
               StringValue (ImageId (last (filter (\<lambda>i. ImageName (CloudCfg cfg) \<noteq> []
                               \<and> firstTagValue i = Inr (ImageName (CloudCfg cfg))) images))))"
proof (intro conjI allI impI)
  fix ami l
  assume "amiLoop env (ImageName (CloudCfg cfg)) ([], 0) images = Inr (ami, l)"
  from amiLoop_selects_last[OF this]
  show "ami = (if filter (\<lambda>i. ImageName (CloudCfg cfg) \<noteq> []
                               \<and> firstTagValue i = Inr (ImageName (CloudCfg cfg))) images = []
                  then []
                  else StringValue (ImageId (last (filter (\<lambda>i. ImageName (CloudCfg cfg) \<noteq> []
                               \<and> firstTagValue i = Inr (ImageName (CloudCfg cfg))) images))))" .
next
  assume a: "(\<forall>i \<in> set images. firstTagValue i \<noteq> Inl PanicIndexOutOfRange)
         \<and> (\<forall>i \<in> set images. ImageName (CloudCfg cfg) \<noteq> []
                \<and> firstTagValue i = Inr (ImageName (CloudCfg cfg)) \<longrightarrow>
              (\<exists>t. timeParse env (StringValue (CreationDate i)) = Inr t))"
  from amiLoop_returns[OF a[THEN conjunct1] a[THEN conjunct2], of "[]" 0]
  show "\<exists>ami l. amiLoop env (ImageName (CloudCfg cfg)) ([], 0) images = Inr (ami, l)"
    by auto
next
  fix input
  assume "RunInstances input \<in> set (snd (CreateInstance env cfg []))"
  from CreateInstance_sent[OF this] assms obtain last' where
    l: "amiLoop env (ImageName (CloudCfg cfg)) ([], 0) images = Inr (RunImageId input, last')"
    and ne: "RunImageId input \<noteq> []"
    by clarsimp
  from amiLoop_selects_last[OF l] ne
  show "filter (\<lambda>i. ImageName (CloudCfg cfg) \<noteq> []
                       \<and> firstTagValue i = Inr (ImageName (CloudCfg cfg))) images \<noteq> []"
    and "RunImageId input =
               StringValue (ImageId (last (filter (\<lambda>i. ImageName (CloudCfg cfg) \<noteq> []
                               \<and> firstTagValue i = Inr (ImageName (CloudCfg cfg))) images)))"
    by (auto split: if_splits)
qed

theorem launches_last_matching_image_witness:
  "onDescribeImages exampleEnv = Inr [imageNew, imageOther, imageOld]
   \<and> firstTagValue imageNew = Inr ''img-v3'' \<and> firstTagValue imageOther = Inr []
   \<and> firstTagValue imageOld = Inr ''img-v3''
   \<and> timeParse exampleEnv (StringValue (CreationDate imageNew)) = Inr 2
   \<and> timeParse exampleEnv (StringValue (CreationDate imageOld)) = Inr 1
   \<and> amiLoop exampleEnv ''img-v3'' ([], 0) [imageNew, imageOther, imageOld] = Inr (''ami-old'', 2)
   \<and> RunInstances \<lparr> RunImageId = ''ami-old'', InstanceType = ''t2.micro'', MinCount = 1,
         MaxCount = 1, RunSubnetId = ''subnet-a'', SecurityGroupIds = [''sg-new''],
         TagSpecifications =
           [(''instance'', [\<lparr> TagKey = Some ''Name'', TagValue = Some ''img-v3-1600000000'' \<rparr>]),
            (''volume'', [\<lparr> TagKey = Some ''Name'', TagValue = Some ''img-v3-1600000000'' \<rparr>])] \<rparr>
        \<in> set (snd (CreateInstance exampleEnv exampleConfig []))
   \<and> ''ami-old'' = StringValue (ImageId (last [imageNew, imageOld]))"
proof -
  let ?images = "[imageNew, imageOther, imageOld]"
  let ?input = "\<lparr> RunImageId = ''ami-old'', InstanceType = ''t2.micro'', MinCount = 1,
         MaxCount = 1, RunSubnetId = ''subnet-a'', SecurityGroupIds = [''sg-new''],
         TagSpecifications =
           [(''instance'', [\<lparr> TagKey = Some ''Name'', TagValue = Some ''img-v3-1600000000'' \<rparr>]),
            (''volume'', [\<lparr> TagKey = Some ''Name'', TagValue = Some ''img-v3-1600000000'' \<rparr>])] \<rparr>"
  have imgs: "onDescribeImages exampleEnv = Inr ?images" by (simp add: example_defs)
  have f: "firstTagValue imageNew = Inr ''img-v3''" "firstTagValue imageOther = Inr []"
    "firstTagValue imageOld = Inr ''img-v3''"
    by (simp_all add: firstTagValue_def StringValue_def example_defs)
  have t: "timeParse exampleEnv (StringValue (CreationDate imageNew)) = Inr 2"
    "timeParse exampleEnv (StringValue (CreationDate imageOld)) = Inr 1"
    by (simp_all add: StringValue_def example_defs)
  have n: "ImageName (CloudCfg exampleConfig) = ''img-v3''" by (simp add: example_defs)
  have ms: "filter (\<lambda>i. ImageName (CloudCfg exampleConfig) \<noteq> []
                \<and> firstTagValue i = Inr (ImageName (CloudCfg exampleConfig))) ?images
            = [imageNew, imageOld]"
    by (simp add: n f)
  have run: "amiLoop exampleEnv ''img-v3'' ([], 0) ?images = Inr (''ami-old'', 2)"
    by (simp add: f t) (simp add: StringValue_def example_defs)
  have mem: "RunInstances ?input \<in> set (snd (CreateInstance exampleEnv exampleConfig []))"
    by (simp add: run_example)
  note T = launches_last_matching_image [where env = exampleEnv and cfg = exampleConfig, OF imgs]
  have run': "amiLoop exampleEnv (ImageName (CloudCfg exampleConfig)) ([], 0) ?images
               = Inr (''ami-old'', 2)"
    using run by (simp only: n)
  note c1raw = T [THEN conjunct1, THEN spec, THEN spec, THEN mp, OF run']
  have c1: "''ami-old'' = StringValue (ImageId (last [imageNew, imageOld]))"
    using c1raw unfolding ms by simp
  note c3raw = T [THEN conjunct2, THEN conjunct2, THEN spec, THEN mp, OF mem]
  have c3: "RunImageId ?input = StringValue (ImageId (last [imageNew, imageOld]))"
    using c3raw unfolding ms by simp
  from imgs f t run mem c1 show ?thesis by simp
qed

section \<open>Creating a security group without ports\<close>

text \<open>
  Claim C7. With no TCP port and no UDP port declared, \<^verbatim>\<open>CreateSG\<close> sends the
  creation request only and, when the provider creates the group, returns the new group
  id; no ingress authorization is sent, by \<^verbatim>\<open>CreateSG\<close> or by a whole run of
  \<^verbatim>\<open>CreateInstance\<close>.
\<close>

theorem CreateSG_without_ports:
  assumes "Ports (RunCfg cfg) = []" and "UDPPorts (RunCfg cfg) = []"
  shows "(\<forall>gid. onCreateSecurityGroup env (imgName @ FormatInt (clockUnixNano env))
                  (''security group for '' @ imgName) vpcID = Inr gid \<longrightarrow>
            CreateSG env cfg imgName vpcID tr =
              (Inr (StringValue gid),
               tr @ [CreateSecurityGroup (imgName @ FormatInt (clockUnixNano env))
                       (''security group for '' @ imgName) vpcID]))
    \<and> (\<forall>g ps. AuthorizeSecurityGroupIngress g ps \<notin> set (snd (CreateSG env cfg imgName vpcID [])))
    \<and> (\<forall>g ps. AuthorizeSecurityGroupIngress g ps \<notin> set (snd (CreateInstance env cfg [])))"
proof (intro conjI allI impI notI)
  fix gid
  assume "onCreateSecurityGroup env (imgName @ FormatInt (clockUnixNano env))
                  (''security group for '' @ imgName) vpcID = Inr gid"
  with assms show "CreateSG env cfg imgName vpcID tr =
              (Inr (StringValue gid),
               tr @ [CreateSecurityGroup (imgName @ FormatInt (clockUnixNano env))
                       (''security group for '' @ imgName) vpcID])"
    by (simp add: CreateSG_def Let_def)
next
  fix g ps
  assume m: "AuthorizeSecurityGroupIngress g ps \<in> set (snd (CreateSG env cfg imgName vpcID []))"
  obtain r tr' where c: "CreateSG env cfg imgName vpcID [] = (r, tr')"
    by (cases "CreateSG env cfg imgName vpcID []")
  from CreateSG_trace[OF c] assms m c show False by auto
next
  fix g ps
  assume "AuthorizeSecurityGroupIngress g ps \<in> set (snd (CreateInstance env cfg []))"
  from CreateInstance_sent[OF this] assms show False by simp
qed

theorem CreateSG_without_ports_witness:
  "Ports (RunCfg portlessConfig) = [] \<and> UDPPorts (RunCfg portlessConfig) = []
   \<and> onCreateSecurityGroup exampleEnv ''img-v31600000000000000000''
        ''security group for img-v3'' ''vpc-b'' = Inr (Some ''sg-new'')
   \<and> CreateSG exampleEnv portlessConfig ''img-v3'' ''vpc-b'' [] =
        (Inr ''sg-new'',
         [CreateSecurityGroup ''img-v31600000000000000000'' ''security group for img-v3'' ''vpc-b''])
   \<and> fst (CreateInstance exampleEnv portlessConfig []) = None
   \<and> AuthorizeSecurityGroupIngress (Some ''sg-new'') [] \<notin>
        set (snd (CreateInstance exampleEnv portlessConfig []))"
proof -
  have p: "Ports (RunCfg portlessConfig) = []" "UDPPorts (RunCfg portlessConfig) = []"
    by (simp_all add: example_defs)
  have n: "FormatInt (clockUnixNano exampleEnv) = ''1600000000000000000''"
    by (simp add: example_defs FormatInt_clockUnixNano)
  have pre: "onCreateSecurityGroup exampleEnv (''img-v3'' @ FormatInt (clockUnixNano exampleEnv))
                  (''security group for '' @ ''img-v3'') ''vpc-b'' = Inr (Some ''sg-new'')"
    by (simp add: example_defs)
  note T = CreateSG_without_ports [where cfg = portlessConfig and env = exampleEnv
      and imgName = "''img-v3''" and vpcID = "''vpc-b''" and tr = "[]", OF p]
  have c1: "CreateSG exampleEnv portlessConfig ''img-v3'' ''vpc-b'' [] =
        (Inr ''sg-new'',
         [CreateSecurityGroup ''img-v31600000000000000000'' ''security group for img-v3'' ''vpc-b''])"
    using T [THEN conjunct1, THEN spec, THEN mp, OF pre] by (simp add: n StringValue_def)
  have c3: "AuthorizeSecurityGroupIngress (Some ''sg-new'') [] \<notin>
        set (snd (CreateInstance exampleEnv portlessConfig []))"
    using T [THEN conjunct2, THEN conjunct2, THEN spec, THEN spec] .
  have r: "fst (CreateInstance exampleEnv portlessConfig []) = None" by (simp add: run_portless)
  from p pre c1 c3 r n show ?thesis by simp
qed

section \<open>Resolving the network\<close>

text \<open>
  With every flag present, the loop of \<^verbatim>\<open>GetVPC\<close> ends on the last network
  flagged default, or on the choice it started with when none is flagged.
\<close>

lemma defaultVpcLoop_last:
  "\<forall>v \<in> set vs. IsDefault v \<noteq> None \<Longrightarrow>
   defaultVpcLoop acc vs =
     Inr (if filter (\<lambda>v. IsDefault v = Some True) vs = [] then acc
          else Some (last (filter (\<lambda>v. IsDefault v = Some True) vs)))"
  by (induction vs arbitrary: acc) (auto split: option.splits)

lemma defaultVpcLoop_result:
  "defaultVpcLoop acc vs = Inl e \<Longrightarrow> e = PanicNilDereference"
  by (induction vs arbitrary: acc) (auto split: option.splits if_splits)

text \<open>
  Claim C6. With a declared network id, and a provider whose answer to the request
  filtered by that id lists networks of that id only, \<^verbatim>\<open>GetVPC\<close> returns a network
  of that id or nothing: its only errors are that no network of that name was found and
  the failure of the provider's own request. With no network declared and a provider that
  lists at least one network, \<^verbatim>\<open>GetVPC\<close> never fails with either of its two
  not-found errors, it returns one of the listed networks when each carries its default
  flag, and it returns the network flagged default when exactly one is.
\<close>

theorem GetVPC_resolution:
  "(VPC (RunCfg cfg) \<noteq> []
      \<and> (\<forall>Vpcs. onDescribeVpcs env
                   (Some [\<lparr> FilterName = ''vpc-id'', FilterValues = [VPC (RunCfg cfg)] \<rparr>])
                 = Inr Vpcs \<longrightarrow>
               (\<forall>v \<in> set Vpcs. VpcId v = Some (VPC (RunCfg cfg)))) \<longrightarrow>
        (\<forall>v. fst (GetVPC env cfg tr) = Inr v \<longrightarrow> VpcId v = Some (VPC (RunCfg cfg)))
        \<and> (\<forall>e. fst (GetVPC env cfg tr) = Inl e \<longrightarrow>
              e = NoVpcsNamed (VPC (RunCfg cfg))
              \<or> (\<exists>err. e = UnableToDescribeVpcs err
                    \<and> onDescribeVpcs env
                        (Some [\<lparr> FilterName = ''vpc-id'', FilterValues = [VPC (RunCfg cfg)] \<rparr>])
                      = Inl err)))
   \<and> (VPC (RunCfg cfg) = [] \<and> onDescribeVpcs env None = Inr Vpcs \<and> Vpcs \<noteq> [] \<longrightarrow>
        fst (GetVPC env cfg tr) \<noteq> Inl NoVpcs
        \<and> (\<forall>n. fst (GetVPC env cfg tr) \<noteq> Inl (NoVpcsNamed n))
        \<and> ((\<forall>v \<in> set Vpcs. IsDefault v \<noteq> None) \<longrightarrow>
              (\<exists>v \<in> set Vpcs. fst (GetVPC env cfg tr) = Inr v)))
   \<and> (VPC (RunCfg cfg) = [] \<and> onDescribeVpcs env None = Inr Vpcs
        \<and> (\<forall>v \<in> set Vpcs. IsDefault v \<noteq> None)
        \<and> filter (\<lambda>v. IsDefault v = Some True) Vpcs = [d] \<longrightarrow>
        fst (GetVPC env cfg tr) = Inr d)"
proof (intro conjI impI allI)
  let ?input = "Some [\<lparr> FilterName = ''vpc-id'', FilterValues = [VPC (RunCfg cfg)] \<rparr>]"
  assume a: "VPC (RunCfg cfg) \<noteq> []
      \<and> (\<forall>Vpcs. onDescribeVpcs env ?input = Inr Vpcs \<longrightarrow>
               (\<forall>v \<in> set Vpcs. VpcId v = Some (VPC (RunCfg cfg))))"
  show "VpcId v = Some (VPC (RunCfg cfg))" if r: "fst (GetVPC env cfg tr) = Inr v" for v
  proof (cases "onDescribeVpcs env ?input")
    case (Inl err)
    with a r show ?thesis by (simp add: GetVPC_def Let_def)
  next
    case (Inr Vpcs)
    with a have h: "\<forall>v \<in> set Vpcs. VpcId v = Some (VPC (RunCfg cfg))" by simp
    show ?thesis
    proof (cases Vpcs)
      case Nil
      with a r Inr show ?thesis by (simp add: GetVPC_def Let_def)
    next
      case (Cons w ws)
      with a r Inr have "v = w" by (simp add: GetVPC_def Let_def)
      with h Cons show ?thesis by simp
    qed
  qed
  show "e = NoVpcsNamed (VPC (RunCfg cfg))
        \<or> (\<exists>err. e = UnableToDescribeVpcs err \<and> onDescribeVpcs env ?input = Inl err)"
    if r: "fst (GetVPC env cfg tr) = Inl e" for e
  proof (cases "onDescribeVpcs env ?input")
    case (Inl err)
    with a r show ?thesis by (auto simp add: GetVPC_def Let_def)
  next
    case (Inr Vpcs)
    with a r show ?thesis by (cases Vpcs) (auto simp add: GetVPC_def Let_def)
  qed
next
  assume a: "VPC (RunCfg cfg) = [] \<and> onDescribeVpcs env None = Inr Vpcs \<and> Vpcs \<noteq> []"
  show "fst (GetVPC env cfg tr) \<noteq> Inl NoVpcs"
    using a defaultVpcLoop_result[of None Vpcs]
    by (auto simp: GetVPC_def Let_def split: sum.splits option.splits)
  show "fst (GetVPC env cfg tr) \<noteq> Inl (NoVpcsNamed n)" for n
    using a defaultVpcLoop_result[of None Vpcs]
    by (auto simp: GetVPC_def Let_def split: sum.splits option.splits)
  show "\<exists>v \<in> set Vpcs. fst (GetVPC env cfg tr) = Inr v"
    if f: "\<forall>v \<in> set Vpcs. IsDefault v \<noteq> None"
  proof (cases "filter (\<lambda>v. IsDefault v = Some True) Vpcs = []")
    case True
    with a f show ?thesis
      by (cases Vpcs) (simp_all add: GetVPC_def Let_def defaultVpcLoop_last del: defaultVpcLoop.simps)
  next
    case False
    then have "last (filter (\<lambda>v. IsDefault v = Some True) Vpcs)
                 \<in> set (filter (\<lambda>v. IsDefault v = Some True) Vpcs)"
      by (rule last_in_set)
    then have "last (filter (\<lambda>v. IsDefault v = Some True) Vpcs) \<in> set Vpcs" by simp
    with a f False show ?thesis
      by (simp add: GetVPC_def Let_def defaultVpcLoop_last del: defaultVpcLoop.simps)
  qed
next
  assume a: "VPC (RunCfg cfg) = [] \<and> onDescribeVpcs env None = Inr Vpcs
        \<and> (\<forall>v \<in> set Vpcs. IsDefault v \<noteq> None)
        \<and> filter (\<lambda>v. IsDefault v = Some True) Vpcs = [d]"
  then have "Vpcs \<noteq> []" by auto
  with a show "fst (GetVPC env cfg tr) = Inr d"
    by (simp add: GetVPC_def Let_def defaultVpcLoop_last del: defaultVpcLoop.simps)
qed

theorem GetVPC_resolution_witness:
  "VPC (RunCfg (declaredConfig ''sg-1'' ''vpc-b'')) = ''vpc-b''
   \<and> onDescribeVpcs exampleEnv (Some [\<lparr> FilterName = ''vpc-id'', FilterValues = [''vpc-b''] \<rparr>])
        = Inr [vpcB]
   \<and> fst (GetVPC exampleEnv (declaredConfig ''sg-1'' ''vpc-b'') []) = Inr vpcB
   \<and> VpcId vpcB = Some ''vpc-b''
   \<and> onDescribeVpcs exampleEnv (Some [\<lparr> FilterName = ''vpc-id'', FilterValues = [''vpc-z''] \<rparr>])
        = Inr []
   \<and> fst (GetVPC exampleEnv (declaredConfig ''sg-1'' ''vpc-z'') []) = Inl (NoVpcsNamed ''vpc-z'')
   \<and> VPC (RunCfg exampleConfig) = []
   \<and> onDescribeVpcs exampleEnv None = Inr [vpcA, vpcB]
   \<and> IsDefault vpcA = Some False \<and> IsDefault vpcB = Some True
   \<and> fst (GetVPC exampleEnv exampleConfig []) = Inr vpcB"
proof -
  let ?ok = "declaredConfig ''sg-1'' ''vpc-b''"
  let ?nf = "declaredConfig ''sg-1'' ''vpc-z''"
  have e: "VPC (RunCfg ?ok) = ''vpc-b''" "VPC (RunCfg ?nf) = ''vpc-z''"
    "VPC (RunCfg exampleConfig) = []"
    "onDescribeVpcs exampleEnv (Some [\<lparr> FilterName = ''vpc-id'', FilterValues = [''vpc-b''] \<rparr>])
        = Inr [vpcB]"
    "onDescribeVpcs exampleEnv (Some [\<lparr> FilterName = ''vpc-id'', FilterValues = [''vpc-z''] \<rparr>])
        = Inr []"
    "onDescribeVpcs exampleEnv None = Inr [vpcA, vpcB]"
    "IsDefault vpcA = Some False" "IsDefault vpcB = Some True"
    by (simp_all add: example_defs)
  have b: "VpcId vpcB = Some ''vpc-b''" by (simp add: vpcB_def)
  have p1: "VPC (RunCfg ?ok) \<noteq> []
      \<and> (\<forall>Vpcs. onDescribeVpcs exampleEnv
                   (Some [\<lparr> FilterName = ''vpc-id'', FilterValues = [VPC (RunCfg ?ok)] \<rparr>])
                 = Inr Vpcs \<longrightarrow>
               (\<forall>v \<in> set Vpcs. VpcId v = Some (VPC (RunCfg ?ok))))"
    using b by (auto simp add: e)
  have p3: "VPC (RunCfg exampleConfig) = [] \<and> onDescribeVpcs exampleEnv None = Inr [vpcA, vpcB]
        \<and> (\<forall>v \<in> set [vpcA, vpcB]. IsDefault v \<noteq> None)
        \<and> filter (\<lambda>v. IsDefault v = Some True) [vpcA, vpcB] = [vpcB]"
    by (auto simp add: e)
  have r1: "fst (GetVPC exampleEnv ?ok []) = Inr vpcB"
    by (simp add: GetVPC_def Let_def e)
  have r2: "fst (GetVPC exampleEnv ?nf []) = Inl (NoVpcsNamed ''vpc-z'')"
    by (simp add: GetVPC_def Let_def e)
  note d1 = GetVPC_resolution [where cfg = ?ok and env = exampleEnv and tr = "[]",
      THEN conjunct1, THEN mp, OF p1, THEN conjunct1, THEN spec, THEN mp, OF r1]
  note d3 = GetVPC_resolution [where cfg = exampleConfig and env = exampleEnv and tr = "[]",
      THEN conjunct2, THEN conjunct2, THEN mp, OF p3]
  from e d1 d3 r1 r2 show ?thesis by simp
qed

section \<open>Choosing the subnet\<close>

text \<open>
  Claim C5. With no subnet declared, \<^verbatim>\<open>GetSubnet\<close> skips the search for the subnet
  flagged default for its availability zone: of the two subnets the provider lists, it
  returns the first, which is not flagged, and not the second, which is. With a subnet
  declared the same list yields the flagged one.
\<close>

theorem GetSubnet_empty_hint_returns_first:
  "Subnet (RunCfg exampleConfig) = []
   \<and> onDescribeSubnets exampleEnv [\<lparr> FilterName = ''vpc-id'', FilterValues = [''vpc-b''] \<rparr>]
        = Inr [subnetA, subnetB]
   \<and> DefaultForAz subnetA = Some False \<and> DefaultForAz subnetB = Some True
   \<and> GetSubnet exampleEnv exampleConfig ''vpc-b'' [] =
        (Inr subnetA, [DescribeSubnets [\<lparr> FilterName = ''vpc-id'', FilterValues = [''vpc-b''] \<rparr>]])
   \<and> fst (GetSubnet exampleEnv
             (exampleConfig \<lparr> RunCfg := (RunCfg exampleConfig) \<lparr> Subnet := ''subnet-b'' \<rparr> \<rparr>)
             ''vpc-b'' []) = Inr subnetB"
  by (simp add: GetSubnet_def Let_def example_defs)

section \<open>Waiting for the public address\<close>

text \<open>
  Claim C2. With a domain name declared and an instance that is found at the first lookup
  with no public address, \<^verbatim>\<open>CreateInstance\<close> returns no error after that one lookup:
  it looks the instance up once, creates no DNS record, and does not time out. It sends no
  request to terminate the instance.
\<close>

theorem CreateInstance_returns_without_address:
  "DomainName (RunCfg domainConfig) = ''www.example.com''
   \<and> onDescribeInstances pendingEnv 0
        [\<lparr> FilterName = ''tag:Name'', FilterValues = [''img-v3-1600000000''] \<rparr>]
        = Inr [\<lparr> Instances = [pendingInstance] \<rparr>]
   \<and> formalizeAWSInstance pendingInstance =
        Inr \<lparr> ID = ''i-1'', Name = ''unknown'', Status = ''pending'', Created = ''t0'',
              PrivateIps = [''10.0.0.5''], PublicIps = [] \<rparr>
   \<and> CreateInstance pendingEnv domainConfig [] =
    (None,
     [DescribeImages, DescribeVpcs None,
      CreateSecurityGroup ''img-v31600000000000000000'' ''security group for img-v3'' ''vpc-b'',
      AuthorizeSecurityGroupIngress (Some ''sg-new'')
        [\<lparr> IpProtocol = ''tcp'', FromPort = 22, ToPort = 22, IpRanges = [''0.0.0.0/0''] \<rparr>,
         \<lparr> IpProtocol = ''tcp'', FromPort = 80, ToPort = 80, IpRanges = [''0.0.0.0/0''] \<rparr>],
      DescribeSubnets [\<lparr> FilterName = ''vpc-id'', FilterValues = [''vpc-b''] \<rparr>],
      RunInstances \<lparr> RunImageId = ''ami-old'', InstanceType = ''t2.micro'', MinCount = 1,
         MaxCount = 1, RunSubnetId = ''subnet-a'', SecurityGroupIds = [''sg-new''],
         TagSpecifications =
           [(''instance'', [\<lparr> TagKey = Some ''Name'', TagValue = Some ''img-v3-1600000000'' \<rparr>]),
            (''volume'', [\<lparr> TagKey = Some ''Name'', TagValue = Some ''img-v3-1600000000'' \<rparr>])] \<rparr>,
      DescribeInstances [\<lparr> FilterName = ''tag:Name'', FilterValues = [''img-v3-1600000000''] \<rparr>]])"
  by (simp add: model_defs example_defs numeral_eq_Suc)

section \<open>Creating an image: what becomes of a failed step\<close>

lemmas image_defs =
  CreateImage_def waitSnapshotToBeReady_def getEc2Service_def acceptors_def valuesAtPath_def
  sentBefore_def FormatInt_clockUnixNano Let_def

text \<open>
  Claim C3. When the provider refuses the tagging of the registered image,
  \<^verbatim>\<open>CreateImage\<close> still returns no error: the error of its last request is dropped.
\<close>

theorem CreateImage_swallows_last_tag_error:
  "onCreateTags tagFailEnv (Some ''ami-1'') [\<lparr> TagKey = Some ''Name'', TagValue = Some ''img-v3'' \<rparr>]
     = Some (AwsErr ''RequestLimitExceeded'' ''slow down'')
   \<and> CreateImage tagFailEnv exampleConfig [] =
    (None,
     [ImportSnapshot ''staging'' ''img-v3'',
      DescribeImportSnapshotTasks (Some ''import-snap-1''),
      DescribeImportSnapshotTasks (Some ''import-snap-1''),
      DescribeImportSnapshotTasks (Some ''import-snap-1''),
      DeleteFromBucket ''img-v3'',
      CreateTags (Some ''snap-1'') [\<lparr> TagKey = Some ''Name'', TagValue = Some ''img-v3'' \<rparr>],
      RegisterImage \<lparr> RegName = ''img-v31600000000000000000'',
                      RegDescription = ''nanos image img-v3'', RegSnapshotId = Some ''snap-1'' \<rparr>,
      CreateTags (Some ''ami-1'') [\<lparr> TagKey = Some ''Name'', TagValue = Some ''img-v3'' \<rparr>]])"
  by (simp add: image_defs example_defs numeral_eq_Suc)

text \<open>
  A waiter none of whose acceptors ever matches asks once per attempt and ends with the
  error of exhausted attempts.
\<close>

lemma WaitWithContext_exhausted:
  "\<forall>k. acceptors (onDescribeImportSnapshotTasks env k importTaskID) = None \<Longrightarrow>
   WaitWithContext env importTaskID n tr =
     (Some (AwsErr ''ResourceNotReady'' ''exceeded wait attempts''),
      tr @ replicate n (DescribeImportSnapshotTasks importTaskID))"
proof (induction n arbitrary: tr)
  case 0
  then show ?case by simp
next
  case (Suc n)
  from Suc.prems have "acceptors (onDescribeImportSnapshotTasks env
      (sentBefore isDescribeImportSnapshotTasks tr) importTaskID) = None" by simp
  with Suc.IH[OF Suc.prems, of "tr @ [DescribeImportSnapshotTasks importTaskID]"]
  show ?case by (simp add: Let_def)
qed

lemma stuck_never_accepted:
  "\<forall>k. acceptors (onDescribeImportSnapshotTasks stuckEnv k importTaskID) = None"
  by (simp add: acceptors_def valuesAtPath_def example_defs)

lemma stuckEnv_fields:
  "onNewSession stuckEnv = None"
  "onImportSnapshot stuckEnv bucket key = Inr (Some ''import-snap-1'')"
  "onDescribeImportSnapshotTasks stuckEnv k task =
     Inr [\<lparr> ImportTaskId = task,
            Detail = Some \<lparr> TaskStatus = Some ''active'', SnapshotId = None \<rparr> \<rparr>]"
  "onDeleteFromBucket stuckEnv key = None"
  "onCreateTags stuckEnv resource tags = None"
  "onRegisterImage stuckEnv rinput = Inr (Some ''ami-1'')"
  "clockUnixNano stuckEnv = 1600000000000000000"
  by (simp_all add: stuckEnv_def exampleEnv_def)

text \<open>
  Claim C1. When the import task stays active through all 60 attempts, the waiter ends
  with its error of exhausted attempts, and \<^verbatim>\<open>CreateImage\<close> returns no error all the
  same: the waiter's result is dropped, the task is described once more, the staging blob
  is deleted, and a snapshot without id is tagged and registered.
\<close>

theorem CreateImage_ignores_waiter_timeout:
  "WaitWithContext stuckEnv (Some ''import-snap-1'') 60
       [ImportSnapshot ''staging'' ''img-v3'', DescribeImportSnapshotTasks (Some ''import-snap-1'')] =
     (Some (AwsErr ''ResourceNotReady'' ''exceeded wait attempts''),
      [ImportSnapshot ''staging'' ''img-v3'', DescribeImportSnapshotTasks (Some ''import-snap-1'')]
        @ replicate 60 (DescribeImportSnapshotTasks (Some ''import-snap-1'')))
   \<and> CreateImage stuckEnv exampleConfig [] =
    (None,
     [ImportSnapshot ''staging'' ''img-v3'', DescribeImportSnapshotTasks (Some ''import-snap-1'')]
      @ replicate 60 (DescribeImportSnapshotTasks (Some ''import-snap-1''))
      @ [DescribeImportSnapshotTasks (Some ''import-snap-1''),
         DeleteFromBucket ''img-v3'',
         CreateTags None [\<lparr> TagKey = Some ''Name'', TagValue = Some ''img-v3'' \<rparr>],
         RegisterImage \<lparr> RegName = ''img-v31600000000000000000'',
                         RegDescription = ''nanos image img-v3'', RegSnapshotId = None \<rparr>,
         CreateTags (Some ''ami-1'') [\<lparr> TagKey = Some ''Name'', TagValue = Some ''img-v3'' \<rparr>]])"
proof -
  note w = WaitWithContext_exhausted [OF stuck_never_accepted]
  have r: "CreateImage stuckEnv exampleConfig [] =
    (None,
     [ImportSnapshot ''staging'' ''img-v3'', DescribeImportSnapshotTasks (Some ''import-snap-1'')]
      @ replicate 60 (DescribeImportSnapshotTasks (Some ''import-snap-1''))
      @ [DescribeImportSnapshotTasks (Some ''import-snap-1''),
         DeleteFromBucket ''img-v3'',
         CreateTags None [\<lparr> TagKey = Some ''Name'', TagValue = Some ''img-v3'' \<rparr>],
         RegisterImage \<lparr> RegName = ''img-v31600000000000000000'',
                         RegDescription = ''nanos image img-v3'', RegSnapshotId = None \<rparr>,
         CreateTags (Some ''ami-1'') [\<lparr> TagKey = Some ''Name'', TagValue = Some ''img-v3'' \<rparr>]])"
    by (simp add: CreateImage_def waitSnapshotToBeReady_def getEc2Service_def w
          FormatInt_clockUnixNano Let_def stuckEnv_fields exampleConfig_def)
  from w r show ?thesis by simp
qed

end
